theory Spec2Isabelle
  imports Main "HOL-Library.Word"
begin

unbundle bit_operations_syntax

section \<open>Python values and exceptions\<close>

text \<open>
  Exceptions are values: every function of the source that can raise returns
  \<open>py_error + 'a\<close>, with \<open>Inl\<close> for the exception. Python's unbounded integers are
  \<open>int\<close>.
\<close>

datatype py_error =
    ValueError string
  | IndexError
  | KeyError string
  | AttributeError
  | TypeError
  | ResourceDoesNotExist
  | IntegrationError string

text \<open>\<open>list.index(x)\<close>: the first position of \<open>x\<close>, or ValueError.\<close>

fun py_index :: "'a list \<Rightarrow> 'a \<Rightarrow> py_error + nat" where
  "py_index [] x = Inl (ValueError ''value is not in list'')"
| "py_index (y # ys) x =
     (if y = x then Inr 0
      else (case py_index ys x of Inl e \<Rightarrow> Inl e | Inr i \<Rightarrow> Inr (Suc i)))"

text \<open>Sequencing of calls that may raise: the first exception ends the computation.\<close>

definition and_then :: "py_error + 'a \<Rightarrow> ('a \<Rightarrow> py_error + 'b) \<Rightarrow> py_error + 'b" where
  "and_then m f = (case m of Inl e \<Rightarrow> Inl e | Inr x \<Rightarrow> f x)"

text \<open>
  Dynamically typed values: \<open>None\<close>, booleans, integers, strings, lists, sets
  (kept as the list of their elements in iteration order) and dicts with string keys
  (an association list read with \<open>map_of\<close>).
\<close>

datatype pyval =
    PNone
  | PBool bool
  | PInt int
  | PStr string
  | PList "pyval list"
  | PSet "pyval list"
  | PDict "(string \<times> pyval) list"

text \<open>
  An audit-log entry as \<open>create_audit_entry\<close> records it. \<open>audit_log.get_event_id\<close>
  maps an event name to its number in a registry that is not among the sources; the
  entry keeps the name.
\<close>

datatype audit_event = SSO_DISABLE | PROJECT_ENABLE | PROJECT_DISABLE

record audit_entry =
  ae_actor :: nat
  ae_organization :: nat
  ae_target_object :: nat
  ae_event :: audit_event
  ae_data :: pyval


subsection \<open>Operations on values\<close>

fun isinstance_bool :: "pyval \<Rightarrow> bool" where
  "isinstance_bool (PBool b) = True"
| "isinstance_bool v = False"

fun is_hashable :: "pyval \<Rightarrow> bool" where
  "is_hashable (PList xs) = False"
| "is_hashable (PSet xs) = False"
| "is_hashable (PDict d) = False"
| "is_hashable v = True"

text \<open>
  \<open>if isinstance(state, list): state = set(state)\<close>; \<open>set\<close> raises TypeError on an
  unhashable element.
\<close>

fun set_if_list :: "pyval \<Rightarrow> py_error + pyval" where
  "set_if_list (PList xs) = (if list_all is_hashable xs then Inr (PSet (remdups xs)) else Inl TypeError)"
| "set_if_list v = Inr v"

text \<open>
  \<open>a - b\<close>: the difference of two numbers (a boolean counts as 0 or 1) or of two
  sets; TypeError for any other operands.
\<close>

fun py_sub :: "pyval \<Rightarrow> pyval \<Rightarrow> py_error + pyval" where
  "py_sub (PBool a) (PBool b) = Inr (PInt (of_bool a - of_bool b))"
| "py_sub (PBool a) (PInt b) = Inr (PInt (of_bool a - b))"
| "py_sub (PInt a) (PBool b) = Inr (PInt (a - of_bool b))"
| "py_sub (PInt a) (PInt b) = Inr (PInt (a - b))"
| "py_sub (PSet xs) (PSet ys) = Inr (PSet (filter (\<lambda>x. x \<notin> set ys) xs))"
| "py_sub a b = Inl TypeError"

text \<open>Truth value of a value, as \<open>if v\<close> and \<open>not v\<close> test it.\<close>

fun py_truthy :: "pyval \<Rightarrow> bool" where
  "py_truthy PNone = False"
| "py_truthy (PBool b) = b"
| "py_truthy (PInt n) = (n \<noteq> 0)"
| "py_truthy (PStr s) = (s \<noteq> [])"
| "py_truthy (PList xs) = (xs \<noteq> [])"
| "py_truthy (PSet xs) = (xs \<noteq> [])"
| "py_truthy (PDict d) = (d \<noteq> [])"

text \<open>
  \<open>a == b\<close>: numbers compare by value, sets by their elements, other values
  structurally.
\<close>

fun py_eq :: "pyval \<Rightarrow> pyval \<Rightarrow> bool" where
  "py_eq (PBool a) (PInt b) = (of_bool a = b)"
| "py_eq (PInt a) (PBool b) = (a = of_bool b)"
| "py_eq (PSet xs) (PSet ys) = (set xs = set ys)"
| "py_eq a b = (a = b)"

text \<open>\<open>isinstance(v, Iterable)\<close> and \<open>list(v)\<close>; a \<open>str\<close> is iterable, character by character.\<close>

fun isinstance_Iterable :: "pyval \<Rightarrow> bool" where
  "isinstance_Iterable (PStr s) = True"
| "isinstance_Iterable (PList xs) = True"
| "isinstance_Iterable (PSet xs) = True"
| "isinstance_Iterable (PDict d) = True"
| "isinstance_Iterable v = False"

fun py_list :: "pyval \<Rightarrow> pyval" where
  "py_list (PStr s) = PList (map (\<lambda>c. PStr [c]) s)"
| "py_list (PList xs) = PList xs"
| "py_list (PSet xs) = PList xs"
| "py_list (PDict d) = PList (map (\<lambda>kv. PStr (fst kv)) d)"
| "py_list v = v"

text \<open>\<open>d[key]\<close> and \<open>d.get(key, default)\<close> on a value that should be a dict.\<close>

fun py_getitem :: "pyval \<Rightarrow> string \<Rightarrow> py_error + pyval" where
  "py_getitem (PDict d) key = (case map_of d key of None \<Rightarrow> Inl (KeyError key) | Some v \<Rightarrow> Inr v)"
| "py_getitem v key = Inl TypeError"

fun py_get :: "pyval \<Rightarrow> string \<Rightarrow> pyval \<Rightarrow> py_error + pyval" where
  "py_get (PDict d) key dflt = Inr (case map_of d key of None \<Rightarrow> dflt | Some v \<Rightarrow> v)"
| "py_get v key dflt = Inl AttributeError"

text \<open>\<open>{**d, key: v}\<close>: the key keeps its place when \<open>d\<close> has it and is added last otherwise.\<close>

fun dict_update :: "string \<Rightarrow> pyval \<Rightarrow> (string \<times> pyval) list \<Rightarrow> (string \<times> pyval) list" where
  "dict_update k v [] = [(k, v)]"
| "dict_update k v (p # ps) = (if fst p = k then (k, v) # ps else p # dict_update k v ps)"


section \<open>bitfield/models.py\<close>

subsection \<open>MAX\_FLAG\_COUNT\<close>

text \<open>\<open>bin(n)\<close> for a non-negative \<open>n\<close>: the prefix \<open>0b\<close> and the binary digits.\<close>

function bin_digits :: "nat \<Rightarrow> string" where
  "bin_digits n =
     (if n < 2 then [if n = 0 then CHR ''0'' else CHR ''1'']
      else bin_digits (n div 2) @ [if n mod 2 = 0 then CHR ''0'' else CHR ''1''])"
  by pat_completeness auto
termination
  by (relation "measure id") auto

definition py_bin :: "nat \<Rightarrow> string" where
  "py_bin n = ''0b'' @ bin_digits n"

text \<open>
  Modelled from the spec: \<open>BigIntegerField.MAX_BIGINT\<close> is a constant of Django, which
  is not among the sources; the spec gives its bit length as 63, and Django's value is
  \<open>2^63 - 1\<close>.
\<close>

definition MAX_BIGINT :: nat where
  "MAX_BIGINT = 9223372036854775807"

definition MAX_FLAG_COUNT :: nat where
  "MAX_FLAG_COUNT = length (py_bin MAX_BIGINT) - 2"

subsection \<open>Bit and BitHandler\<close>

text \<open>
  Modelled from the spec: the classes \<open>Bit\<close> and \<open>BitHandler\<close> live in
  \<open>bitfield/types.py\<close>, which is not among the sources. The spec has \<open>Bit(i)\<close> stand
  for the integer \<open>2^i\<close> (its \<open>mask\<close>), \<open>~bit\<close> for the complemented mask, and
  \<open>int | bit\<close> for the bitwise OR with the mask; a \<open>BitHandler\<close> wraps a value
  together with the flag names and labels it was built with.
\<close>

record Bit =
  bit_number :: nat
  bit_is_set :: bool
  bit_mask :: int

definition Bit_init :: "nat \<Rightarrow> Bit" where
  "Bit_init n = \<lparr>bit_number = n, bit_is_set = True, bit_mask = 2 ^ n\<rparr>"

definition Bit_invert :: "Bit \<Rightarrow> Bit" where
  "Bit_invert b =
     \<lparr>bit_number = bit_number b, bit_is_set = (\<not> bit_is_set b), bit_mask = NOT (bit_mask b)\<rparr>"

definition int_or_Bit :: "int \<Rightarrow> Bit \<Rightarrow> int" where
  "int_or_Bit v b = v OR bit_mask b"

record BitHandler =
  bh_value :: "int option"
  bh_keys :: "string list"
  bh_labels :: "string list"

definition BitHandler_init :: "int option \<Rightarrow> string list \<Rightarrow> string list \<Rightarrow> BitHandler" where
  "BitHandler_init v keys labels = \<lparr>bh_value = v, bh_keys = keys, bh_labels = labels\<rparr>"

subsection \<open>BitFieldFlags\<close>

record BitFieldFlags =
  bff_flags :: "string list"

definition BitFieldFlags_init :: "string list \<Rightarrow> py_error + BitFieldFlags" where
  "BitFieldFlags_init flags =
     (if length flags > MAX_FLAG_COUNT then Inl (ValueError ''Too many flags'')
      else Inr \<lparr>bff_flags = flags\<rparr>)"

text \<open>\<open>__getattr__\<close>, which is also \<open>__getitem__\<close>.\<close>

definition BitFieldFlags_getitem :: "BitFieldFlags \<Rightarrow> string \<Rightarrow> py_error + Bit" where
  "BitFieldFlags_getitem self key =
     (if key \<notin> set (bff_flags self) then Inl AttributeError
      else (case py_index (bff_flags self) key of
              Inl e \<Rightarrow> Inl e
            | Inr i \<Rightarrow> Inr (Bit_init i)))"

subsection \<open>BitField\<close>

text \<open>
  A flag is a name, or a tuple or list whose first two items are the name and the
  label. The \<open>flags\<close> argument is a sequence of flags or a dict; a dict key is an
  integer or something else. The \<open>default\<close> argument is \<open>None\<close>, an integer, or a
  list, tuple, set or frozenset of names (in iteration order).
\<close>

datatype flag_item = Flag string | FlagTuple "string list"

datatype dict_key = IntKey int | OtherKey string

datatype flags_arg =
    FlagsSeq "flag_item list"
  | FlagsDict "(dict_key \<times> flag_item) list"

datatype default_arg = DefaultNone | DefaultInt int | DefaultColl "string list"

record BitField =
  bf_arg_flags :: "flag_item list"
  bf_flags :: "string list"
  bf_labels :: "string list"
  bf_default :: "int option"

text \<open>
  The dict branch. \<open>valid_keys\<close> is a generator object, so \<open>not valid_keys\<close> is
  always false and the guarded raise is never taken; \<open>max\<close> of an empty generator
  raises ValueError itself.
\<close>

fun valid_keys :: "(dict_key \<times> flag_item) list \<Rightarrow> int list" where
  "valid_keys [] = []"
| "valid_keys ((IntKey k, v) # kvs) =
     (if 0 \<le> k \<and> k < int MAX_FLAG_COUNT then k # valid_keys kvs else valid_keys kvs)"
| "valid_keys ((OtherKey s, v) # kvs) = valid_keys kvs"

definition py_max :: "int list \<Rightarrow> py_error + int" where
  "py_max ks =
     (case ks of
        [] \<Rightarrow> Inl (ValueError ''max() arg is an empty sequence'')
      | k # ks' \<Rightarrow> Inr (fold max ks' k))"

definition dict_get :: "(dict_key \<times> flag_item) list \<Rightarrow> dict_key \<Rightarrow> flag_item \<Rightarrow> flag_item" where
  "dict_get d k dflt = (case map_of d k of None \<Rightarrow> dflt | Some v \<Rightarrow> v)"

definition generator_is_truthy :: bool where
  "generator_is_truthy = True"

definition flags_of_dict :: "(dict_key \<times> flag_item) list \<Rightarrow> py_error + flag_item list" where
  "flags_of_dict d =
     (if \<not> generator_is_truthy then Inl (ValueError ''Wrong keys or empty dictionary'')
      else (case py_max (valid_keys d) of
              Inl e \<Rightarrow> Inl e
            | Inr m \<Rightarrow> Inr (map (\<lambda>i. dict_get d (IntKey (int i)) (Flag '''')) [0..<nat (m + 1)])))"

text \<open>The loop over \<open>enumerate(flags)\<close>: the names and the labels.\<close>

fun split_flags :: "flag_item list \<Rightarrow> py_error + (string list \<times> string list)" where
  "split_flags [] = Inr ([], [])"
| "split_flags (Flag s # fs) =
     (case split_flags fs of
        Inl e \<Rightarrow> Inl e
      | Inr (names, labels) \<Rightarrow> Inr (s # names, s # labels))"
| "split_flags (FlagTuple [] # fs) = Inl IndexError"
| "split_flags (FlagTuple [a] # fs) = Inl IndexError"
| "split_flags (FlagTuple (a # b # rest) # fs) =
     (case split_flags fs of
        Inl e \<Rightarrow> Inl e
      | Inr (names, labels) \<Rightarrow> Inr (a # names, b # labels))"

text \<open>The loop \<open>for flag in default: new_value |= Bit(flags.index(flag))\<close>.\<close>

fun default_bits :: "string list \<Rightarrow> string list \<Rightarrow> int \<Rightarrow> py_error + int" where
  "default_bits flags [] new_value = Inr new_value"
| "default_bits flags (flag # rest) new_value =
     (case py_index flags flag of
        Inl e \<Rightarrow> Inl e
      | Inr i \<Rightarrow> default_bits flags rest (int_or_Bit new_value (Bit_init i)))"

definition BitField_init :: "flags_arg \<Rightarrow> default_arg \<Rightarrow> py_error + BitField" where
  "BitField_init flags_in dflt =
     (case (case flags_in of FlagsSeq fs \<Rightarrow> Inr fs | FlagsDict d \<Rightarrow> flags_of_dict d) of
        Inl e \<Rightarrow> Inl e
      | Inr arg_flags \<Rightarrow>
          if length arg_flags > MAX_FLAG_COUNT then Inl (ValueError ''Too many flags'')
          else (case split_flags arg_flags of
                  Inl e \<Rightarrow> Inl e
                | Inr (flags, labels) \<Rightarrow>
                    (case (case dflt of
                             DefaultNone \<Rightarrow> Inr None
                           | DefaultInt n \<Rightarrow> Inr (Some n)
                           | DefaultColl ds \<Rightarrow>
                               (case default_bits flags ds 0 of
                                  Inl e \<Rightarrow> Inl e
                                | Inr v \<Rightarrow> Inr (Some v))) of
                       Inl e \<Rightarrow> Inl e
                     | Inr d \<Rightarrow>
                         Inr \<lparr>bf_arg_flags = arg_flags, bf_flags = flags,
                              bf_labels = labels, bf_default = d\<rparr>)))"

text \<open>
  \<open>to_python\<close>. The value is a \<open>Bit\<close>, a \<open>BitHandler\<close>, an integer or \<open>None\<close>.
  The loop over \<open>enumerate(self.flags)\<close> is the fold over the bit numbers.
\<close>

datatype field_value = VBit Bit | VHandler BitHandler | VInt int | VNone

definition visible_bits :: "int \<Rightarrow> nat \<Rightarrow> int" where
  "visible_bits v k = fold (\<lambda>bit_number new_value. new_value OR (v AND 2 ^ bit_number)) [0..<k] 0"

definition to_python :: "BitField \<Rightarrow> field_value \<Rightarrow> BitHandler" where
  "to_python self v0 =
     (let v = (case v0 of VBit b \<Rightarrow> VInt (bit_mask b) | _ \<Rightarrow> v0)
      in case v of
           VHandler h \<Rightarrow> h\<lparr>bh_keys := bf_flags self\<rparr>
         | VInt n \<Rightarrow>
             BitHandler_init
               (Some (if n < 0 then visible_bits n (length (bf_flags self)) else n))
               (bf_flags self) (bf_labels self)
         | _ \<Rightarrow> BitHandler_init None (bf_flags self) (bf_labels self))"

text \<open>
  \<open>BitFieldCreator.__get__\<close> on the class (\<open>obj is None\<close>), as in
  \<open>OrganizationMember.flags\<close>.
\<close>

definition BitFieldCreator_get_class :: "BitField \<Rightarrow> py_error + BitFieldFlags" where
  "BitFieldCreator_get_class field = BitFieldFlags_init (bf_flags field)"


section \<open>sentry/web/frontend/organization\_auth\_settings.py\<close>

text \<open>
  The rows \<open>_disable_provider\<close> touches. \<open>flags\<close> of an organization member is a
  \<open>bigint\<close> column, a 64-bit two's complement integer.
\<close>

record OrganizationMember =
  om_organization_id :: nat
  om_user_id :: "nat option"
  om_flags :: "64 word"

record User =
  user_id :: nat
  user_is_managed :: bool

record AuthProvider =
  ap_id :: nat
  ap_provider :: string
  ap_scim_enabled :: bool
  ap_audit_log_data :: pyval

datatype task = EmailUnlinkNotifications nat nat string

record sso_db =
  db_audit_log :: "audit_entry list"
  db_members :: "OrganizationMember list"
  db_users :: "User list"
  db_task_queue :: "task list"
  db_auth_providers :: "AuthProvider list"

text \<open>
  \<open>F("flags").bitand(bit)\<close>: the database computes \<open>flags & mask\<close> on the column,
  with the mask of the \<open>Bit\<close> as a \<open>bigint\<close>.
\<close>

definition F_bitand :: "64 word \<Rightarrow> Bit \<Rightarrow> 64 word" where
  "F_bitand column b = column AND word_of_int (bit_mask b)"

text \<open>
  The update of lines 94 to 99. \<open>OrganizationMember.flags\<close> is the \<open>BitField\<close> of the
  model class, which is not among the sources: the field is a parameter. Each
  \<open>OrganizationMember.flags[...]\<close> goes through \<open>BitFieldCreator.__get__\<close> and
  \<open>BitFieldFlags.__getitem__\<close>.
\<close>

definition clear_sso_flags ::
  "BitField \<Rightarrow> nat \<Rightarrow> OrganizationMember list \<Rightarrow> py_error + OrganizationMember list" where
  "clear_sso_flags flags_field organization_id members =
     and_then (BitFieldCreator_get_class flags_field) (\<lambda>class_flags.
     and_then (BitFieldFlags_getitem class_flags ''sso:linked'') (\<lambda>linked.
     and_then (BitFieldCreator_get_class flags_field) (\<lambda>class_flags'.
     and_then (BitFieldFlags_getitem class_flags' ''sso:invalid'') (\<lambda>invalid.
       Inr (map (\<lambda>m. if om_organization_id m = organization_id
                       then m\<lparr>om_flags :=
                              F_bitand (F_bitand (om_flags m) (Bit_invert linked))
                                (Bit_invert invalid)\<rparr>
                       else m) members)))))"

text \<open>
  \<open>User.objects.filter(id__in=user_ids).update(is_managed=False)\<close>, with
  \<open>user_ids\<close> the \<open>user_id\<close> column of the organization's members.
\<close>

definition unmanage_users :: "nat \<Rightarrow> OrganizationMember list \<Rightarrow> User list \<Rightarrow> User list" where
  "unmanage_users organization_id members users =
     (let user_ids = map om_user_id (filter (\<lambda>m. om_organization_id m = organization_id) members)
      in map (\<lambda>u. if Some (user_id u) \<in> set user_ids then u\<lparr>user_is_managed := False\<rparr> else u)
           users)"

text \<open>
  \<open>_disable_provider\<close>. \<open>AuthProvider.disable_scim\<close> is not among the sources and is
  a parameter; \<open>request_user\<close> is \<open>request.user.id\<close>.
\<close>

definition disable_provider ::
  "BitField \<Rightarrow> (AuthProvider \<Rightarrow> nat \<Rightarrow> sso_db \<Rightarrow> sso_db) \<Rightarrow>
   nat \<Rightarrow> nat \<Rightarrow> AuthProvider \<Rightarrow> sso_db \<Rightarrow> py_error + sso_db" where
  "disable_provider flags_field disable_scim request_user organization_id auth_provider db =
     (let db1 = db\<lparr>db_audit_log := db_audit_log db @
                  [\<lparr>ae_actor = request_user, ae_organization = organization_id,
                    ae_target_object = ap_id auth_provider, ae_event = SSO_DISABLE,
                    ae_data = ap_audit_log_data auth_provider\<rparr>]\<rparr>
      in and_then (clear_sso_flags flags_field organization_id (db_members db1)) (\<lambda>members.
           let db2 = db1\<lparr>db_members := members\<rparr>;
               db3 = db2\<lparr>db_users := unmanage_users organization_id (db_members db2) (db_users db2)\<rparr>;
               db4 = db3\<lparr>db_task_queue := db_task_queue db3 @
                        [EmailUnlinkNotifications organization_id request_user
                           (ap_provider auth_provider)]\<rparr>;
               db5 = (if ap_scim_enabled auth_provider
                      then disable_scim auth_provider request_user db4 else db4)
           in Inr (db5\<lparr>db_auth_providers :=
                        filter (\<lambda>p. ap_id p \<noteq> ap_id auth_provider) (db_auth_providers db5)\<rparr>)))"


section \<open>sentry/integrations/gitlab/integration.py\<close>

text \<open>\<open>GitlabIntegration.error_message_from_json\<close>; falling off the end returns \<open>None\<close>.\<close>

definition error_message_from_json :: "(string \<times> pyval) list \<Rightarrow> pyval" where
  "error_message_from_json data =
     (case map_of data ''message'' of
        Some message \<Rightarrow> message
      | None \<Rightarrow>
          (case map_of data ''error'' of
             Some error \<Rightarrow> error
           | None \<Rightarrow> PNone))"


subsection \<open>GitlabIntegrationProvider.build\_integration\<close>

text \<open>\<open>s.rstrip("/")\<close>.\<close>

definition rstrip_slash :: "string \<Rightarrow> string" where
  "rstrip_slash s = rev (dropWhile (\<lambda>c. c = CHR ''/'') (rev s))"

text \<open>
  What \<open>build_integration\<close> calls and is not among the sources: \<open>get_oauth_data\<close> and
  \<open>get_user_info\<close> of \<open>sentry.identity.gitlab\<close>, the sorted
  \<open>GitlabIdentityProvider.oauth_scopes\<close>, \<open>GitlabProxySetupClient.get_group\<close> (the
  request to GitLab: \<open>Inl\<close> is an \<open>ApiError\<close>, \<open>Inr\<close> the JSON of the response),
  \<open>urlparse(...).netloc\<close> and \<open>str\<close> of the standard library, and
  \<open>sha1_text(...).hexdigest()\<close> of \<open>sentry.utils.hashlib\<close>. They are parameters.
\<close>

record gitlab_env =
  get_oauth_data :: "pyval \<Rightarrow> py_error + (string \<times> pyval) list"
  get_user_info :: "pyval \<Rightarrow> pyval \<Rightarrow> py_error + pyval"
  sorted_oauth_scopes :: "string list"
  client_get_group :: "pyval \<Rightarrow> pyval \<Rightarrow> pyval \<Rightarrow> pyval \<Rightarrow> unit + pyval"
  urlparse_netloc :: "pyval \<Rightarrow> py_error + string"
  py_str :: "pyval \<Rightarrow> string"
  sha1_text_hexdigest :: "string \<Rightarrow> string"

text \<open>
  \<open>get_group_info\<close>: the client is built from the url and \<open>verify_ssl\<close>; an
  \<open>ApiError\<close> is logged, reading four keys of the installation data, and becomes an
  \<open>IntegrationError\<close>.
\<close>

definition get_group_info :: "gitlab_env \<Rightarrow> pyval \<Rightarrow> pyval \<Rightarrow> py_error + pyval" where
  "get_group_info env access_token installation_data =
     and_then (py_getitem installation_data ''url'') (\<lambda>base_url.
     and_then (py_getitem installation_data ''verify_ssl'') (\<lambda>verify_ssl.
     and_then (py_getitem installation_data ''group'') (\<lambda>group.
       case client_get_group env base_url access_token verify_ssl group of
         Inr json \<Rightarrow> Inr json
       | Inl api_error \<Rightarrow>
           and_then (py_getitem installation_data ''url'') (\<lambda>_.
           and_then (py_getitem installation_data ''verify_ssl'') (\<lambda>_.
           and_then (py_getitem installation_data ''group'') (\<lambda>_.
           and_then (py_getitem installation_data ''include_subgroups'') (\<lambda>_.
             Inl (IntegrationError ''The requested GitLab group could not be found.''))))))))"

record integration_metadata =
  md_icon :: pyval
  md_instance :: string
  md_domain_name :: string
  md_scopes :: "string list"
  md_verify_ssl :: pyval
  md_base_url :: pyval
  md_webhook_secret :: string
  md_group_id :: pyval
  md_include_subgroups :: pyval

record user_identity =
  ui_type :: string
  ui_external_id :: string
  ui_scopes :: "string list"
  ui_data :: "(string \<times> pyval) list"

record integration =
  int_name :: pyval
  int_external_id :: string
  int_metadata :: integration_metadata
  int_user_identity :: user_identity

text \<open>\<open>"".join([hostname, client_id])\<close>: TypeError unless \<open>client_id\<close> is a \<open>str\<close>.\<close>

fun join_hostname :: "string \<Rightarrow> pyval \<Rightarrow> py_error + string" where
  "join_hostname hostname (PStr client_id) = Inr (hostname @ client_id)"
| "join_hostname hostname v = Inl TypeError"

definition build_integration :: "gitlab_env \<Rightarrow> pyval \<Rightarrow> py_error + integration" where
  "build_integration env state =
     and_then (py_getitem state ''identity'') (\<lambda>identity.
     and_then (py_getitem identity ''data'') (\<lambda>data.
     and_then (py_get state ''oauth_config_information'' (PDict [])) (\<lambda>oauth_config.
     and_then (get_oauth_data env data) (\<lambda>oauth_data0.
     and_then (py_get oauth_config ''client_id'' PNone) (\<lambda>oauth_client_id.
     and_then (py_get oauth_config ''client_secret'' PNone) (\<lambda>oauth_client_secret.
     let oauth_data = dict_update ''client_secret'' oauth_client_secret
                        (dict_update ''client_id'' oauth_client_id oauth_data0) in
     and_then (py_getitem data ''access_token'') (\<lambda>access_token.
     and_then (py_getitem state ''installation_data'') (\<lambda>installation_data.
     and_then (get_user_info env access_token installation_data) (\<lambda>user.
     let scopes = sorted_oauth_scopes env in
     and_then (py_getitem installation_data ''url'') (\<lambda>base_url.
     and_then (py_get installation_data ''group'' PNone) (\<lambda>group_setting.
     and_then
       (if py_truthy group_setting then
          and_then (get_group_info env access_token installation_data) (\<lambda>group.
          and_then (py_getitem installation_data ''include_subgroups'') (\<lambda>include_subgroups.
            Inr (group, include_subgroups)))
        else Inr (PDict [], PBool False))
       (\<lambda>(group, include_subgroups).
     and_then (urlparse_netloc env base_url) (\<lambda>hostname.
     and_then (py_getitem installation_data ''verify_ssl'') (\<lambda>verify_ssl.
     and_then (py_getitem installation_data ''client_id'') (\<lambda>client_id.
     and_then (join_hostname hostname client_id) (\<lambda>secret_text.
     let secret = sha1_text_hexdigest env secret_text in
     and_then (py_get group ''full_name'' (PStr hostname)) (\<lambda>name.
     and_then (py_get group ''id'' (PStr ''_instance_'')) (\<lambda>external_group.
     and_then (py_get group ''avatar_url'' PNone) (\<lambda>icon.
     and_then (py_get group ''full_path'' (PStr '''')) (\<lambda>full_path.
     and_then (py_get group ''id'' PNone) (\<lambda>group_id.
     and_then (py_getitem user ''id'') (\<lambda>user_id.
       Inr \<lparr>int_name = name,
            int_external_id = hostname @ '':'' @ py_str env external_group,
            int_metadata =
              \<lparr>md_icon = icon,
               md_instance = hostname,
               md_domain_name = rstrip_slash (hostname @ ''/'' @ py_str env full_path),
               md_scopes = scopes,
               md_verify_ssl = verify_ssl,
               md_base_url = base_url,
               md_webhook_secret = secret,
               md_group_id = group_id,
               md_include_subgroups = include_subgroups\<rparr>,
            int_user_identity =
              \<lparr>ui_type = ''gitlab'',
               ui_external_id = hostname @ '':'' @ py_str env user_id,
               ui_scopes = scopes,
               ui_data = oauth_data\<rparr>\<rparr>))))))))))))))))))))))"


section \<open>sentry/tasks/integrations/github/pr\_comment.py\<close>

text \<open>
  A Python \<open>str\<close> is a sequence of Unicode code points, and \<open>len\<close> and slicing count
  code points: a \<open>str\<close> is a list of code points here. \<open>ascii\<close> embeds an ASCII
  literal.
\<close>

type_synonym ustr = "nat list"

definition ascii :: "string \<Rightarrow> ustr" where
  "ascii s = map of_char s"

record PullRequestIssue =
  title :: ustr
  subtitle :: ustr
  url :: ustr

text \<open>
  The two templates. Code point 10 is the newline, 8252 and 65039 are the double
  exclamation mark and its variation selector, 128077 and 128078 are the thumbs up and
  thumbs down signs.
\<close>

definition COMMENT_BODY_TEMPLATE :: ustr where
  "COMMENT_BODY_TEMPLATE =
     ascii ''## Suspect Issues'' @ [10] @
     ascii ''This pull request has been deployed and Sentry has observed the following issues:'' @
     [10, 10] @
     ascii ''{issue_list}'' @ [10, 10] @
     ascii ''Have questions? Reach out to us in the #proj-github-pr-comments channel.'' @
     [10, 10] @
     ascii ''<sub>Did you find this useful? React with a '' @ [128077] @ ascii '' or '' @
     [128078] @ ascii ''</sub>''"

definition SINGLE_ISSUE_TEMPLATE :: ustr where
  "SINGLE_ISSUE_TEMPLATE =
     ascii ''- '' @ [8252, 65039] @
     ascii '' **{title}** `{subtitle}` [View Issue]({url})''"

text \<open>
  \<open>str.format\<close> with keyword arguments, for the part of the format language the
  templates use: literal text, the escapes \<open>{{\<close> and \<open>}}\<close>, and replacement fields
  that are a plain name. The second argument is \<open>None\<close> in literal text and the
  reversed field name read so far inside a replacement field. Code points 123 and 125
  are the braces. A value is inserted as it is and is not scanned again.
\<close>

fun py_format :: "ustr \<Rightarrow> ustr option \<Rightarrow> (ustr \<times> ustr) list \<Rightarrow> py_error + ustr" where
  "py_format [] None kwargs = Inr []"
| "py_format [] (Some name) kwargs = Inl (ValueError ''expected } before end of string'')"
| "py_format (c # cs) None kwargs =
     (if c = 123 then
        (case cs of
           [] \<Rightarrow> Inl (ValueError ''Single { encountered in format string'')
         | c' # cs' \<Rightarrow>
             if c' = 123 then and_then (py_format cs' None kwargs) (\<lambda>r. Inr (123 # r))
             else py_format cs (Some []) kwargs)
      else if c = 125 then
        (case cs of
           [] \<Rightarrow> Inl (ValueError ''Single } encountered in format string'')
         | c' # cs' \<Rightarrow>
             if c' = 125 then and_then (py_format cs' None kwargs) (\<lambda>r. Inr (125 # r))
             else Inl (ValueError ''Single } encountered in format string''))
      else and_then (py_format cs None kwargs) (\<lambda>r. Inr (c # r)))"
| "py_format (c # cs) (Some name) kwargs =
     (if c = 125 then
        (case map_of kwargs (rev name) of
           None \<Rightarrow> Inl (KeyError ''format field'')
         | Some v \<Rightarrow> and_then (py_format cs None kwargs) (\<lambda>r. Inr (v @ r)))
      else py_format cs (Some (c # name)) kwargs)"

text \<open>\<open>sep.join(parts)\<close>.\<close>

fun join :: "ustr \<Rightarrow> ustr list \<Rightarrow> ustr" where
  "join sep [] = []"
| "join sep [x] = x"
| "join sep (x # y # ys) = x @ sep @ join sep (y # ys)"

definition format_subtitle :: "ustr \<Rightarrow> ustr" where
  "format_subtitle s = (if length s > 50 then take 47 s @ ascii ''...'' else s)"

text \<open>The list comprehension: one formatted line for each issue, in order.\<close>

fun format_issues :: "PullRequestIssue list \<Rightarrow> py_error + ustr list" where
  "format_issues [] = Inr []"
| "format_issues (issue # issues) =
     and_then
       (py_format SINGLE_ISSUE_TEMPLATE None
          [(ascii ''title'', title issue),
           (ascii ''subtitle'', format_subtitle (subtitle issue)),
           (ascii ''url'', url issue)])
       (\<lambda>line. and_then (format_issues issues) (\<lambda>lines. Inr (line # lines)))"

definition format_comment :: "PullRequestIssue list \<Rightarrow> py_error + ustr" where
  "format_comment issues =
     and_then (format_issues issues) (\<lambda>lines.
       py_format COMMENT_BODY_TEMPLATE None [(ascii ''issue_list'', join [10] lines)])"


section \<open>sentry/api/endpoints/project\_filter\_details.py\<close>

record Request =
  request_user :: nat
  request_data :: pyval

record Response =
  response_status :: nat
  response_data :: "pyval option"

record Project =
  project_id :: nat
  project_organization :: nat
  project_options :: "(string \<times> pyval) list"

text \<open>
  A filter spec: its id, and its serializer class as the function from the request
  data (validated with \<open>partial=True\<close>) to the errors (\<open>Inl\<close>, when \<open>is_valid()\<close> is
  false) or to the validated data (\<open>Inr\<close>).
\<close>

record filter_spec =
  spec_id :: string
  spec_serializer :: "pyval \<Rightarrow> pyval + pyval"

text \<open>
  The module \<open>sentry.ingest.inbound_filters\<close> is not among the sources: its three
  functions are parameters. \<open>set_filter_state\<close> returns the new state and the project
  with its options written.
\<close>

record inbound_filters =
  get_all_filter_specs :: "filter_spec list"
  get_filter_state :: "string \<Rightarrow> Project \<Rightarrow> pyval"
  set_filter_state :: "string \<Rightarrow> Project \<Rightarrow> pyval \<Rightarrow> pyval \<times> Project"

record filter_world =
  fw_project :: Project
  fw_audit_log :: "audit_entry list"

text \<open>Lines 78 to 92: the branch for \<open>legacy-browsers\<close>, from the initial event and state.\<close>

definition legacy_browsers_audit :: "pyval \<Rightarrow> pyval \<Rightarrow> py_error + (audit_event \<times> pyval)" where
  "legacy_browsers_audit current_state new_state =
     (if isinstance_bool current_state \<or> isinstance_bool new_state then
        Inr (if \<not> py_truthy new_state then PROJECT_DISABLE else PROJECT_ENABLE, new_state)
      else
        and_then (py_sub current_state new_state) (\<lambda>removed.
          if py_truthy removed then Inr (PROJECT_DISABLE, removed)
          else
            and_then (py_sub new_state current_state) (\<lambda>added.
              if py_truthy added then Inr (PROJECT_ENABLE, added)
              else if py_eq new_state current_state then Inr (PROJECT_ENABLE, new_state)
              else Inr (PROJECT_ENABLE, PNone))))"

text \<open>Lines 75 to 102: the event and the state that the audit entry records.\<close>

definition audit_state :: "string \<Rightarrow> pyval \<Rightarrow> pyval \<Rightarrow> py_error + (audit_event \<times> pyval)" where
  "audit_state filter_id current_state new_state =
     and_then
       (if filter_id = ''legacy-browsers'' then legacy_browsers_audit current_state new_state
        else Inr (PROJECT_ENABLE, PNone))
       (\<lambda>(audit_log_state, returned_state).
     and_then
       (if filter_id \<in> set [''browser-extensions'', ''localhost'', ''web-crawlers''] then
          and_then (py_sub current_state new_state) (\<lambda>removed.
            Inr (if py_eq removed (PInt 1) then PROJECT_DISABLE else audit_log_state,
                 PStr filter_id))
        else Inr (audit_log_state, returned_state))
       (\<lambda>(audit_log_state, returned_state).
     Inr (audit_log_state,
          if isinstance_Iterable returned_state then py_list returned_state
          else returned_state)))"

text \<open>
  \<open>ProjectFilterDetailsEndpoint.put\<close>. The result is the exception or the response,
  and the project and audit log as the call leaves them.
\<close>

definition put ::
  "inbound_filters \<Rightarrow> Request \<Rightarrow> string \<Rightarrow> filter_world \<Rightarrow> (py_error + Response) \<times> filter_world" where
  "put api request filter_id w =
     (case find (\<lambda>flt. spec_id flt = filter_id) (get_all_filter_specs api) of
        None \<Rightarrow> (Inl ResourceDoesNotExist, w)
      | Some current_filter \<Rightarrow>
          (case spec_serializer current_filter (request_data request) of
             Inl errors \<Rightarrow> (Inr \<lparr>response_status = 400, response_data = Some errors\<rparr>, w)
           | Inr validated_data \<Rightarrow>
               (case set_if_list (get_filter_state api filter_id (fw_project w)) of
                  Inl e \<Rightarrow> (Inl e, w)
                | Inr current_state \<Rightarrow>
                    (let (new_state0, project') =
                           set_filter_state api filter_id (fw_project w) validated_data;
                         w' = w\<lparr>fw_project := project'\<rparr>
                     in case and_then (set_if_list new_state0) (audit_state filter_id current_state) of
                          Inl e \<Rightarrow> (Inl e, w')
                        | Inr (audit_log_state, returned_state) \<Rightarrow>
                            (Inr \<lparr>response_status = 201, response_data = None\<rparr>,
                             w'\<lparr>fw_audit_log := fw_audit_log w' @
                                  [\<lparr>ae_actor = request_user request,
                                    ae_organization = project_organization project',
                                    ae_target_object = project_id project',
                                    ae_event = audit_log_state,
                                    ae_data = PDict [(''state'', returned_state)]\<rparr>]\<rparr>)))))"


section \<open>Properties of the bit field\<close>

lemma MAX_FLAG_COUNT_63: "MAX_FLAG_COUNT = 63"
  by (simp add: MAX_FLAG_COUNT_def py_bin_def MAX_BIGINT_def)

lemma split_flags_length:
  "split_flags fs = Inr (names, labels) \<Longrightarrow> length names = length fs \<and> length labels = length fs"
proof (induction fs arbitrary: names labels rule: split_flags.induct)
  case 1
  then show ?case by simp
next
  case (2 s fs)
  then show ?case by (auto split: sum.splits prod.splits)
next
  case (3 fs)
  then show ?case by simp
next
  case (4 a fs)
  then show ?case by simp
next
  case (5 a b rest fs)
  then show ?case by (auto split: sum.splits prod.splits)
qed

lemma py_index_not_too_many: "py_index xs x \<noteq> Inl (ValueError ''Too many flags'')"
  by (induction xs) (auto split: sum.splits)

lemma default_bits_not_too_many:
  "default_bits flags ds acc \<noteq> Inl (ValueError ''Too many flags'')"
proof (induction ds arbitrary: acc)
  case Nil
  show ?case by simp
next
  case (Cons d ds)
  show ?case
  proof (cases "py_index flags d")
    case (Inl e)
    with py_index_not_too_many [of flags d] show ?thesis by auto
  next
    case (Inr i)
    with Cons.IH show ?thesis by simp
  qed
qed

lemma split_flags_not_too_many: "split_flags fs \<noteq> Inl (ValueError ''Too many flags'')"
  by (induction fs rule: split_flags.induct) (auto split: sum.splits prod.splits)

text \<open>
  C1. Passing more than \<open>MAX_FLAG_COUNT = 63\<close> flags in a sequence to
  \<open>BitFieldFlags.__init__\<close> or to \<open>BitField.__init__\<close> raises
  \<open>ValueError("Too many flags")\<close>; with at most 63 flags neither constructor raises
  that error.
\<close>

theorem C1_too_many_flags:
  "MAX_FLAG_COUNT = 63 \<and>
   (length names > 63 \<longrightarrow> BitFieldFlags_init names = Inl (ValueError ''Too many flags'')) \<and>
   (length names \<le> 63 \<longrightarrow> BitFieldFlags_init names = Inr \<lparr>bff_flags = names\<rparr>) \<and>
   (length fs > 63 \<longrightarrow> BitField_init (FlagsSeq fs) dflt = Inl (ValueError ''Too many flags'')) \<and>
   (length fs \<le> 63 \<longrightarrow> BitField_init (FlagsSeq fs) dflt \<noteq> Inl (ValueError ''Too many flags''))"
proof -
  have a: "length names > 63 \<longrightarrow> BitFieldFlags_init names = Inl (ValueError ''Too many flags'')"
    by (simp add: BitFieldFlags_init_def MAX_FLAG_COUNT_63)
  have b: "length names \<le> 63 \<longrightarrow> BitFieldFlags_init names = Inr \<lparr>bff_flags = names\<rparr>"
    by (simp add: BitFieldFlags_init_def MAX_FLAG_COUNT_63)
  have c: "length fs > 63 \<longrightarrow> BitField_init (FlagsSeq fs) dflt = Inl (ValueError ''Too many flags'')"
    by (simp add: BitField_init_def MAX_FLAG_COUNT_63)
  have d: "length fs \<le> 63 \<longrightarrow> BitField_init (FlagsSeq fs) dflt \<noteq> Inl (ValueError ''Too many flags'')"
  proof
    assume le: "length fs \<le> 63"
    show "BitField_init (FlagsSeq fs) dflt \<noteq> Inl (ValueError ''Too many flags'')"
    proof (cases "split_flags fs")
      case (Inl e)
      with split_flags_not_too_many [of fs] le show ?thesis
        by (auto simp: BitField_init_def MAX_FLAG_COUNT_63)
    next
      case (Inr p)
      obtain flags labels where p: "p = (flags, labels)" by (cases p)
      show ?thesis
      proof (cases dflt)
        case DefaultNone
        with Inr p le show ?thesis by (simp add: BitField_init_def MAX_FLAG_COUNT_63)
      next
        case (DefaultInt n)
        with Inr p le show ?thesis by (simp add: BitField_init_def MAX_FLAG_COUNT_63)
      next
        case (DefaultColl ds)
        with Inr p le default_bits_not_too_many [of flags ds 0] show ?thesis
          by (auto simp: BitField_init_def MAX_FLAG_COUNT_63 split: sum.splits)
      qed
    qed
  qed
  from a b c d MAX_FLAG_COUNT_63 show ?thesis by blast
qed

theorem C1_too_many_flags_witness:
  "BitFieldFlags_init (replicate 64 ''f'') = Inl (ValueError ''Too many flags'') \<and>
   BitFieldFlags_init [''a'', ''b''] = Inr \<lparr>bff_flags = [''a'', ''b'']\<rparr> \<and>
   BitField_init (FlagsSeq (replicate 64 (Flag ''f''))) DefaultNone
     = Inl (ValueError ''Too many flags'') \<and>
   BitField_init (FlagsSeq [Flag ''a'', Flag ''b'']) (DefaultColl [''c''])
     \<noteq> Inl (ValueError ''Too many flags'')"
  using C1_too_many_flags [of "replicate 64 ''f''" "replicate 64 (Flag ''f'')" DefaultNone]
    C1_too_many_flags [of "[''a'', ''b'']" "[Flag ''a'', Flag ''b'']" "DefaultColl [''c'']"]
  by simp

lemma py_index_in: "x \<in> set xs \<Longrightarrow> \<exists>i. py_index xs x = Inr i"
  by (induction xs) auto

lemma py_index_Inr:
  "py_index xs x = Inr i \<Longrightarrow> i < length xs \<and> xs ! i = x \<and> (\<forall>j<i. xs ! j \<noteq> x)"
proof (induction xs arbitrary: i)
  case Nil
  then show ?case by simp
next
  case (Cons y ys)
  show ?case
  proof (cases "y = x")
    case True
    with Cons.prems show ?thesis by simp
  next
    case False
    with Cons.prems obtain k where k: "py_index ys x = Inr k" "i = Suc k"
      by (auto split: sum.splits)
    from Cons.IH [OF k(1)] False k(2) show ?thesis
      by (auto simp: nth_Cons split: nat.splits)
  qed
qed

lemma py_index_distinct:
  "distinct xs \<Longrightarrow> i < length xs \<Longrightarrow> py_index xs (xs ! i) = Inr i"
proof (induction xs arbitrary: i)
  case Nil
  then show ?case by simp
next
  case (Cons y ys)
  show ?case
  proof (cases i)
    case 0
    then show ?thesis by simp
  next
    case (Suc k)
    with Cons.prems have "k < length ys" "ys ! k \<noteq> y" "distinct ys" by auto
    with Cons.IH [of k] Suc show ?thesis by auto
  qed
qed

lemma default_bits_total:
  "set ds \<subseteq> set flags \<Longrightarrow> \<exists>v. default_bits flags ds acc = Inr v"
proof (induction ds arbitrary: acc)
  case Nil
  show ?case by simp
next
  case (Cons d ds)
  then obtain i where "py_index flags d = Inr i" using py_index_in [of d flags] by auto
  with Cons show ?case by simp
qed

lemma default_bits_bit:
  "default_bits flags ds acc = Inr v \<Longrightarrow>
   bit v i \<longleftrightarrow> bit acc i \<or> (\<exists>d\<in>set ds. py_index flags d = Inr i)"
proof (induction ds arbitrary: acc)
  case Nil
  then show ?case by simp
next
  case (Cons d ds)
  from Cons.prems obtain k where k: "py_index flags d = Inr k"
    and rest: "default_bits flags ds (acc OR 2 ^ k) = Inr v"
    by (auto simp: int_or_Bit_def Bit_init_def split: sum.splits)
  have "bit (acc OR 2 ^ k) i \<longleftrightarrow> bit acc i \<or> k = i"
    by (auto simp: bit_simps)
  with Cons.IH [OF rest] k show ?case by auto
qed

lemma default_bits_nonneg:
  "default_bits flags ds acc = Inr v \<Longrightarrow> 0 \<le> acc \<Longrightarrow> 0 \<le> v"
proof (induction ds arbitrary: acc)
  case Nil
  then show ?case by simp
next
  case (Cons d ds)
  from Cons.prems obtain k where rest: "default_bits flags ds (acc OR 2 ^ k) = Inr v"
    by (auto simp: int_or_Bit_def Bit_init_def split: sum.splits)
  from Cons.prems have "0 \<le> acc OR 2 ^ k" by simp
  with Cons.IH [OF rest] show ?case .
qed

lemma visible_bits_mask: "visible_bits v k = v AND mask k"
  unfolding visible_bits_def
proof (induction k)
  case 0
  show ?case by simp
next
  case (Suc k)
  have "(v AND mask k) OR (v AND 2 ^ k) = v AND mask (Suc k)"
    by (rule bit_eqI) (auto simp: bit_simps less_Suc_eq)
  with Suc show ?case by simp
qed

text \<open>
  C2, as amended. For a \<open>BitField\<close> built from a flag sequence with names \<open>names\<close>
  and a default given as a collection \<open>ds\<close> of names that all occur among the flags,
  construction succeeds and the default handed to \<open>BigIntegerField\<close> is the integer
  whose set bits are exactly the positions \<open>flags.index(d)\<close> of the members \<open>d\<close> of
  \<open>ds\<close>: the bitwise OR of \<open>2^i\<close> over the first index \<open>i\<close> at which each member
  occurs. When the names are distinct these are all the indices at which members of
  \<open>ds\<close> occur, so bit \<open>i\<close> is set exactly when the \<open>i\<close>-th flag is a member of \<open>ds\<close>.
\<close>

theorem C2_default_packed:
  assumes len: "length fs \<le> 63"
    and names: "split_flags fs = Inr (names, labels)"
    and sub: "set ds \<subseteq> set names"
  shows "\<exists>bf v. BitField_init (FlagsSeq fs) (DefaultColl ds) = Inr bf \<and>
           bf_flags bf = names \<and> bf_default bf = Some v \<and> 0 \<le> v \<and>
           (\<forall>i. bit v i \<longleftrightarrow> (\<exists>d\<in>set ds. py_index names d = Inr i)) \<and>
           (distinct names \<longrightarrow> (\<forall>i. bit v i \<longleftrightarrow> i < length names \<and> names ! i \<in> set ds))"
proof -
  from default_bits_total [OF sub, of 0] obtain v where v: "default_bits names ds 0 = Inr v"
    by blast
  have bits: "bit v i \<longleftrightarrow> (\<exists>d\<in>set ds. py_index names d = Inr i)" for i
    using default_bits_bit [OF v, of i] by simp
  have init: "BitField_init (FlagsSeq fs) (DefaultColl ds) =
      Inr \<lparr>bf_arg_flags = fs, bf_flags = names, bf_labels = labels, bf_default = Some v\<rparr>"
    using len names v by (simp add: BitField_init_def MAX_FLAG_COUNT_63)
  have dist: "bit v i \<longleftrightarrow> i < length names \<and> names ! i \<in> set ds" if d: "distinct names" for i
  proof
    assume "bit v i"
    with bits obtain x where "x \<in> set ds" "py_index names x = Inr i" by blast
    with py_index_Inr [of names x i] show "i < length names \<and> names ! i \<in> set ds" by auto
  next
    assume "i < length names \<and> names ! i \<in> set ds"
    with py_index_distinct [OF d, of i] bits show "bit v i" by blast
  qed
  have nonneg: "0 \<le> v"
    using default_bits_nonneg [OF v] by simp
  from init bits dist nonneg show ?thesis by auto
qed

theorem C2_default_packed_witness:
  "\<exists>bf. BitField_init (FlagsSeq [Flag ''a'', FlagTuple [''b'', ''B''], Flag ''c''])
           (DefaultColl [''c'', ''a'']) = Inr bf \<and> bf_default bf = Some 5"
proof -
  have len: "length [Flag ''a'', FlagTuple [''b'', ''B''], Flag ''c''] \<le> 63" by simp
  have sp: "split_flags [Flag ''a'', FlagTuple [''b'', ''B''], Flag ''c'']
      = Inr ([''a'', ''b'', ''c''], [''a'', ''B'', ''c''])" by simp
  have sub: "set [''c'', ''a''] \<subseteq> set [''a'', ''b'', ''c'']" by simp
  from C2_default_packed [OF len sp sub] obtain bf v where
    bf: "BitField_init (FlagsSeq [Flag ''a'', FlagTuple [''b'', ''B''], Flag ''c''])
           (DefaultColl [''c'', ''a'']) = Inr bf" "bf_default bf = Some v"
    by blast
  have "BitField_init (FlagsSeq [Flag ''a'', FlagTuple [''b'', ''B''], Flag ''c''])
           (DefaultColl [''c'', ''a''])
        = Inr \<lparr>bf_arg_flags = [Flag ''a'', FlagTuple [''b'', ''B''], Flag ''c''],
                bf_flags = [''a'', ''b'', ''c''], bf_labels = [''a'', ''B'', ''c''],
                bf_default = Some 5\<rparr>"
    by (simp add: BitField_init_def MAX_FLAG_COUNT_63 int_or_Bit_def Bit_init_def)
  with bf show ?thesis by auto
qed

text \<open>
  C2 as first stated, with the OR taken over every index at which a member of the
  default occurs, fails when a name is repeated: for the flags \<open>a, b, a\<close> and the
  default \<open>a\<close> the name occurs at the indices 0 and 2, which would give 5, and
  \<open>flags.index\<close> finds only the first, so the default is 1.
\<close>

theorem C2_repeated_name_counterexample:
  "BitField_init (FlagsSeq [Flag ''a'', Flag ''b'', Flag ''a'']) (DefaultColl [''a'']) =
     Inr \<lparr>bf_arg_flags = [Flag ''a'', Flag ''b'', Flag ''a''],
          bf_flags = [''a'', ''b'', ''a''], bf_labels = [''a'', ''b'', ''a''],
          bf_default = Some 1\<rparr> \<and>
   [''a'', ''b'', ''a''] ! 0 \<in> set [''a''] \<and>
   [''a'', ''b'', ''a''] ! 1 \<notin> set [''a''] \<and>
   [''a'', ''b'', ''a''] ! 2 \<in> set [''a''] \<and>
   (2 ^ 0 OR 2 ^ 2 :: int) = 5 \<and>
   (1 :: int) \<noteq> 2 ^ 0 OR 2 ^ 2"
  by (simp add: BitField_init_def MAX_FLAG_COUNT_63 int_or_Bit_def Bit_init_def)

text \<open>
  C8. \<open>to_python\<close> replaces a negative integer \<open>n\<close> by the bitwise OR of
  \<open>n & 2^b\<close> over the bit numbers \<open>b < k\<close>, where \<open>k\<close> is the number of flags; that
  value is \<open>n & (2^k - 1)\<close> and is not negative. A non-negative integer is wrapped
  in the \<open>BitHandler\<close> unchanged.
\<close>

theorem C8_to_python_negative:
  "(n < 0 \<longrightarrow>
      to_python self (VInt n) =
        BitHandler_init (Some (n AND (2 ^ length (bf_flags self) - 1)))
          (bf_flags self) (bf_labels self) \<and>
      visible_bits n (length (bf_flags self)) = n AND (2 ^ length (bf_flags self) - 1) \<and>
      0 \<le> n AND (2 ^ length (bf_flags self) - 1)) \<and>
   (0 \<le> n \<longrightarrow>
      to_python self (VInt n) = BitHandler_init (Some n) (bf_flags self) (bf_labels self))"
  by (simp add: to_python_def visible_bits_mask mask_eq_exp_minus_1)

theorem C8_to_python_negative_witness:
  "to_python \<lparr>bf_arg_flags = [Flag ''a'', Flag ''b'', Flag ''c''], bf_flags = [''a'', ''b'', ''c''],
               bf_labels = [''a'', ''b'', ''c''], bf_default = None\<rparr> (VInt (- 3))
     = BitHandler_init (Some 5) [''a'', ''b'', ''c''] [''a'', ''b'', ''c''] \<and>
   to_python \<lparr>bf_arg_flags = [Flag ''a'', Flag ''b'', Flag ''c''], bf_flags = [''a'', ''b'', ''c''],
               bf_labels = [''a'', ''b'', ''c''], bf_default = None\<rparr> (VInt 9)
     = BitHandler_init (Some 9) [''a'', ''b'', ''c''] [''a'', ''b'', ''c'']"
  using C8_to_python_negative [of "- 3" "\<lparr>bf_arg_flags = [Flag ''a'', Flag ''b'', Flag ''c''],
      bf_flags = [''a'', ''b'', ''c''], bf_labels = [''a'', ''b'', ''c''], bf_default = None\<rparr>"]
    C8_to_python_negative [of 9 "\<lparr>bf_arg_flags = [Flag ''a'', Flag ''b'', Flag ''c''],
      bf_flags = [''a'', ''b'', ''c''], bf_labels = [''a'', ''b'', ''c''], bf_default = None\<rparr>"]
  by simp



section \<open>Properties of the SSO flag update\<close>

lemma F_bitand_invert_bit:
  "bit (F_bitand w (Bit_invert (Bit_init i))) b \<longleftrightarrow> bit w b \<and> b \<noteq> i"
  by (auto simp: F_bitand_def Bit_invert_def Bit_init_def bit_simps dest: bit_imp_le_length)

lemma BitFieldFlags_getitem_in:
  "key \<in> set flags \<Longrightarrow>
   \<exists>i. py_index flags key = Inr i \<and> BitFieldFlags_getitem \<lparr>bff_flags = flags\<rparr> key = Inr (Bit_init i)"
  using py_index_in [of key flags] by (auto simp: BitFieldFlags_getitem_def)

text \<open>
  C9. When the flag list of \<open>OrganizationMember.flags\<close> holds \<open>sso:linked\<close> at
  position \<open>i\<close> and \<open>sso:invalid\<close> at position \<open>j\<close>, the update of
  \<open>_disable_provider\<close> succeeds, keeps every row, and changes only the \<open>flags\<close> column
  of the members of the organization: the new value is the old one ANDed with the
  complements of the two masks, so bits \<open>i\<close> and \<open>j\<close> are cleared and every other bit
  is as before. Members of other organizations are untouched. When SCIM is not enabled
  for the provider, these are the member rows \<open>_disable_provider\<close> leaves behind.
\<close>

theorem C9_clear_sso_flags:
  assumes len: "length (bf_flags field) \<le> 63"
    and linked: "''sso:linked'' \<in> set (bf_flags field)"
    and invalid: "''sso:invalid'' \<in> set (bf_flags field)"
  shows "\<exists>i j ms.
           py_index (bf_flags field) ''sso:linked'' = Inr i \<and>
           py_index (bf_flags field) ''sso:invalid'' = Inr j \<and>
           clear_sso_flags field org members = Inr ms \<and>
           length ms = length members \<and>
           (\<forall>k<length members.
              om_organization_id (ms ! k) = om_organization_id (members ! k) \<and>
              om_user_id (ms ! k) = om_user_id (members ! k) \<and>
              (om_organization_id (members ! k) = org \<longrightarrow>
                 om_flags (ms ! k) =
                   (om_flags (members ! k) AND NOT (2 ^ i)) AND NOT (2 ^ j) \<and>
                 (\<forall>b. bit (om_flags (ms ! k)) b \<longleftrightarrow>
                        bit (om_flags (members ! k)) b \<and> b \<noteq> i \<and> b \<noteq> j)) \<and>
              (om_organization_id (members ! k) \<noteq> org \<longrightarrow> ms ! k = members ! k)) \<and>
           (\<not> ap_scim_enabled provider \<longrightarrow>
              (\<exists>db'. disable_provider field disable_scim actor org provider
                        (db\<lparr>db_members := members\<rparr>) = Inr db' \<and>
                     db_members db' = ms))"
proof -
  from BitFieldFlags_getitem_in [OF linked] obtain i where
    i: "py_index (bf_flags field) ''sso:linked'' = Inr i"
       "BitFieldFlags_getitem \<lparr>bff_flags = bf_flags field\<rparr> ''sso:linked'' = Inr (Bit_init i)"
    by blast
  from BitFieldFlags_getitem_in [OF invalid] obtain j where
    j: "py_index (bf_flags field) ''sso:invalid'' = Inr j"
       "BitFieldFlags_getitem \<lparr>bff_flags = bf_flags field\<rparr> ''sso:invalid'' = Inr (Bit_init j)"
    by blast
  define upd :: "OrganizationMember \<Rightarrow> OrganizationMember" where "upd = (\<lambda>m. if om_organization_id m = org
      then m\<lparr>om_flags := F_bitand (F_bitand (om_flags m) (Bit_invert (Bit_init i)))
                             (Bit_invert (Bit_init j))\<rparr>
      else m)"
  have cls: "BitFieldCreator_get_class field = Inr \<lparr>bff_flags = bf_flags field\<rparr>"
    using len by (simp add: BitFieldCreator_get_class_def BitFieldFlags_init_def MAX_FLAG_COUNT_63)
  have run: "clear_sso_flags field org members = Inr (map upd members)"
    by (simp add: clear_sso_flags_def and_then_def cls i j upd_def)
  have word: "F_bitand (F_bitand w (Bit_invert (Bit_init i))) (Bit_invert (Bit_init j))
      = (w AND NOT (2 ^ i)) AND NOT (2 ^ j)" for w
    by (rule bit_eqI) (auto simp: F_bitand_def Bit_invert_def Bit_init_def bit_simps)
  have bits: "bit (F_bitand (F_bitand w (Bit_invert (Bit_init i))) (Bit_invert (Bit_init j))) b
      \<longleftrightarrow> bit w b \<and> b \<noteq> i \<and> b \<noteq> j" for w b
    by (auto simp: F_bitand_invert_bit)
  have wbits: "bit ((w AND NOT (2 ^ i)) AND NOT (2 ^ j)) b \<longleftrightarrow> bit w b \<and> b \<noteq> i \<and> b \<noteq> j"
    for w :: "64 word" and b
    by (auto simp: bit_simps dest: bit_imp_le_length)
  have elem: "om_organization_id (upd m) = om_organization_id m \<and>
      om_user_id (upd m) = om_user_id m \<and>
      (om_organization_id m = org \<longrightarrow>
         om_flags (upd m) = (om_flags m AND NOT (2 ^ i)) AND NOT (2 ^ j) \<and>
         (\<forall>b. bit (om_flags (upd m)) b \<longleftrightarrow> bit (om_flags m) b \<and> b \<noteq> i \<and> b \<noteq> j)) \<and>
      (om_organization_id m \<noteq> org \<longrightarrow> upd m = m)" for m
    using word [of "om_flags m"] bits [of "om_flags m"] by (simp add: upd_def)
  have whole: "\<not> ap_scim_enabled provider \<longrightarrow>
      (\<exists>db'. disable_provider field disable_scim actor org provider
                (db\<lparr>db_members := members\<rparr>) = Inr db' \<and>
             db_members db' = map upd members)"
    by (simp add: disable_provider_def and_then_def run Let_def)
  have "py_index (bf_flags field) ''sso:linked'' = Inr i \<and>
      py_index (bf_flags field) ''sso:invalid'' = Inr j \<and>
      clear_sso_flags field org members = Inr (map upd members) \<and>
      length (map upd members) = length members \<and>
      (\<forall>k<length members.
         om_organization_id (map upd members ! k) = om_organization_id (members ! k) \<and>
         om_user_id (map upd members ! k) = om_user_id (members ! k) \<and>
         (om_organization_id (members ! k) = org \<longrightarrow>
            om_flags (map upd members ! k) =
              (om_flags (members ! k) AND NOT (2 ^ i)) AND NOT (2 ^ j) \<and>
            (\<forall>b. bit (om_flags (map upd members ! k)) b \<longleftrightarrow>
                   bit (om_flags (members ! k)) b \<and> b \<noteq> i \<and> b \<noteq> j)) \<and>
         (om_organization_id (members ! k) \<noteq> org \<longrightarrow> map upd members ! k = members ! k)) \<and>
      (\<not> ap_scim_enabled provider \<longrightarrow>
         (\<exists>db'. disable_provider field disable_scim actor org provider
                   (db\<lparr>db_members := members\<rparr>) = Inr db' \<and>
                db_members db' = map upd members))"
    by (simp add: elem i j run whole wbits)
  then show ?thesis by blast
qed

theorem C9_clear_sso_flags_witness:
  "\<exists>ms. clear_sso_flags
          \<lparr>bf_arg_flags = [], bf_flags = [''sso:linked'', ''sso:invalid'', ''member-limit:restricted''],
           bf_labels = [], bf_default = None\<rparr> 1
          [\<lparr>om_organization_id = 1, om_user_id = Some 10, om_flags = 7\<rparr>,
           \<lparr>om_organization_id = 2, om_user_id = Some 11, om_flags = 3\<rparr>] = Inr ms \<and>
        om_flags (ms ! 0) = 4 \<and>
        ms ! 1 = \<lparr>om_organization_id = 2, om_user_id = Some 11, om_flags = 3\<rparr>"
proof -
  let ?field = "\<lparr>bf_arg_flags = [], bf_flags = [''sso:linked'', ''sso:invalid'', ''member-limit:restricted''],
           bf_labels = [], bf_default = None\<rparr>"
  let ?members = "[\<lparr>om_organization_id = 1, om_user_id = Some 10, om_flags = 7\<rparr>,
           \<lparr>om_organization_id = 2, om_user_id = Some 11, om_flags = 3\<rparr>]"
  have len: "length (bf_flags ?field) \<le> 63" by simp
  have l: "''sso:linked'' \<in> set (bf_flags ?field)" by simp
  have i: "''sso:invalid'' \<in> set (bf_flags ?field)" by simp
  from C9_clear_sso_flags [OF len l i, of 1 ?members] obtain ms where
    ms: "clear_sso_flags ?field 1 ?members = Inr ms"
    by blast
  have "clear_sso_flags ?field 1 ?members =
      Inr [\<lparr>om_organization_id = 1, om_user_id = Some 10, om_flags = 4\<rparr>,
           \<lparr>om_organization_id = 2, om_user_id = Some 11, om_flags = 3\<rparr>]"
    by (simp add: clear_sso_flags_def and_then_def BitFieldCreator_get_class_def
        BitFieldFlags_init_def MAX_FLAG_COUNT_63 BitFieldFlags_getitem_def F_bitand_def
        Bit_invert_def Bit_init_def)
  with ms show ?thesis by auto
qed


section \<open>Properties of the GitLab integration\<close>

text \<open>
  C7. \<open>error_message_from_json\<close> returns \<open>data["message"]\<close> when the key
  \<open>message\<close> is present, otherwise \<open>data["error"]\<close> when that key is present,
  otherwise \<open>None\<close>.
\<close>

theorem C7_error_message_from_json:
  "(''message'' \<in> fst ` set data \<longrightarrow>
      map_of data ''message'' = Some (error_message_from_json data)) \<and>
   (''message'' \<notin> fst ` set data \<and> ''error'' \<in> fst ` set data \<longrightarrow>
      map_of data ''error'' = Some (error_message_from_json data)) \<and>
   (''message'' \<notin> fst ` set data \<and> ''error'' \<notin> fst ` set data \<longrightarrow>
      error_message_from_json data = PNone)"
proof -
  have m: "''message'' \<in> fst ` set data \<longleftrightarrow> map_of data ''message'' \<noteq> None"
    by (simp add: map_of_eq_None_iff)
  have e: "''error'' \<in> fst ` set data \<longleftrightarrow> map_of data ''error'' \<noteq> None"
    by (simp add: map_of_eq_None_iff)
  show ?thesis
    unfolding m e by (auto simp: error_message_from_json_def split: option.splits)
qed

theorem C7_error_message_from_json_witness:
  "error_message_from_json [(''error'', PStr ''e''), (''message'', PStr ''m'')] = PStr ''m'' \<and>
   error_message_from_json [(''error'', PStr ''404 Not Found'')] = PStr ''404 Not Found'' \<and>
   error_message_from_json [(''detail'', PInt 3)] = PNone"
  using C7_error_message_from_json [of "[(''error'', PStr ''e''), (''message'', PStr ''m'')]"]
    C7_error_message_from_json [of "[(''error'', PStr ''404 Not Found'')]"]
    C7_error_message_from_json [of "[(''detail'', PInt 3)]"]
  by simp

lemma and_then_Inr: "and_then m f = Inr y \<longleftrightarrow> (\<exists>x. m = Inr x \<and> f x = Inr y)"
  by (cases m) (simp_all add: and_then_def)

lemma join_hostname_Inr:
  "join_hostname hostname v = Inr t \<longleftrightarrow> (\<exists>client_id. v = PStr client_id \<and> t = hostname @ client_id)"
  by (cases v) auto

lemma build_integration_secret:
  assumes "build_integration env state = Inr integ"
  shows "\<exists>installation_data base_url hostname client_id.
           py_getitem state ''installation_data'' = Inr installation_data \<and>
           py_getitem installation_data ''url'' = Inr base_url \<and>
           urlparse_netloc env base_url = Inr hostname \<and>
           py_getitem installation_data ''client_id'' = Inr (PStr client_id) \<and>
           md_instance (int_metadata integ) = hostname \<and>
           md_webhook_secret (int_metadata integ) =
             sha1_text_hexdigest env (hostname @ client_id)"
  using assms
  by (auto simp: build_integration_def and_then_Inr join_hostname_Inr Let_def
      split: prod.splits)

text \<open>
  C10. Whenever \<open>build_integration\<close> returns, the \<open>webhook_secret\<close> of the metadata
  is the SHA-1 hex digest of the hostname (the \<open>netloc\<close> of the installation's url)
  followed by the installation's \<open>client_id\<close>. Nothing else enters it: two runs that
  agree on hostname and \<open>client_id\<close> give the same secret, whatever the rest of the
  state and whatever GitLab and the identity provider answer.
\<close>

theorem C10_webhook_secret:
  "(build_integration env state = Inr integ \<longrightarrow>
      (\<exists>installation_data base_url hostname client_id.
         py_getitem state ''installation_data'' = Inr installation_data \<and>
         py_getitem installation_data ''url'' = Inr base_url \<and>
         urlparse_netloc env base_url = Inr hostname \<and>
         py_getitem installation_data ''client_id'' = Inr (PStr client_id) \<and>
         md_instance (int_metadata integ) = hostname \<and>
         md_webhook_secret (int_metadata integ) =
           sha1_text_hexdigest env (hostname @ client_id))) \<and>
   (build_integration env state = Inr integ \<and>
    build_integration env' state' = Inr integ' \<and>
    sha1_text_hexdigest env' = sha1_text_hexdigest env \<and>
    md_instance (int_metadata integ') = md_instance (int_metadata integ) \<and>
    and_then (py_getitem state' ''installation_data'') (\<lambda>d. py_getitem d ''client_id'') =
      and_then (py_getitem state ''installation_data'') (\<lambda>d. py_getitem d ''client_id'') \<longrightarrow>
      md_webhook_secret (int_metadata integ') = md_webhook_secret (int_metadata integ))"
proof (intro conjI impI)
  assume "build_integration env state = Inr integ"
  then show "\<exists>installation_data base_url hostname client_id.
         py_getitem state ''installation_data'' = Inr installation_data \<and>
         py_getitem installation_data ''url'' = Inr base_url \<and>
         urlparse_netloc env base_url = Inr hostname \<and>
         py_getitem installation_data ''client_id'' = Inr (PStr client_id) \<and>
         md_instance (int_metadata integ) = hostname \<and>
         md_webhook_secret (int_metadata integ) =
           sha1_text_hexdigest env (hostname @ client_id)"
    by (rule build_integration_secret)
next
  assume a: "build_integration env state = Inr integ \<and>
    build_integration env' state' = Inr integ' \<and>
    sha1_text_hexdigest env' = sha1_text_hexdigest env \<and>
    md_instance (int_metadata integ') = md_instance (int_metadata integ) \<and>
    and_then (py_getitem state' ''installation_data'') (\<lambda>d. py_getitem d ''client_id'') =
      and_then (py_getitem state ''installation_data'') (\<lambda>d. py_getitem d ''client_id'')"
  from a build_integration_secret [of env state integ] obtain d c where
    r: "py_getitem state ''installation_data'' = Inr d"
       "py_getitem d ''client_id'' = Inr (PStr c)"
       "md_webhook_secret (int_metadata integ) =
          sha1_text_hexdigest env (md_instance (int_metadata integ) @ c)"
    by auto
  from a build_integration_secret [of env' state' integ'] obtain d' c' where
    r': "py_getitem state' ''installation_data'' = Inr d'"
        "py_getitem d' ''client_id'' = Inr (PStr c')"
        "md_webhook_secret (int_metadata integ') =
           sha1_text_hexdigest env' (md_instance (int_metadata integ') @ c')"
    by auto
  from a r(1,2) r'(1,2) have "c' = c"
    by (simp add: and_then_def)
  with a r(3) r'(3) show "md_webhook_secret (int_metadata integ') = md_webhook_secret (int_metadata integ)"
    by simp
qed

theorem C10_webhook_secret_witness:
  "\<forall>sha1. \<exists>integ.
     build_integration
       \<lparr>get_oauth_data = (\<lambda>d. Inr [(''access_token'', PStr ''tok'')]),
        get_user_info = (\<lambda>t i. Inr (PDict [(''id'', PInt 5)])),
        sorted_oauth_scopes = [''api''],
        client_get_group = (\<lambda>u t v g. Inl ()),
        urlparse_netloc = (\<lambda>u. Inr ''gitlab.example.com''),
        py_str = (\<lambda>v. case v of PStr s \<Rightarrow> s | _ \<Rightarrow> ''5''),
        sha1_text_hexdigest = sha1\<rparr>
       (PDict [(''identity'', PDict [(''data'', PDict [(''access_token'', PStr ''tok'')])]),
               (''installation_data'',
                PDict [(''url'', PStr ''https://gitlab.example.com/''),
                       (''verify_ssl'', PBool True),
                       (''client_id'', PStr ''abc''),
                       (''group'', PStr []),
                       (''include_subgroups'', PBool False)])]) = Inr integ \<and>
     md_webhook_secret (int_metadata integ) = sha1 ''gitlab.example.comabc''"
proof
  fix sha1 :: "string \<Rightarrow> string"
  let ?env = "\<lparr>get_oauth_data = (\<lambda>d. Inr [(''access_token'', PStr ''tok'')]),
        get_user_info = (\<lambda>t i. Inr (PDict [(''id'', PInt 5)])),
        sorted_oauth_scopes = [''api''],
        client_get_group = (\<lambda>u t v g. Inl ()),
        urlparse_netloc = (\<lambda>u. Inr ''gitlab.example.com''),
        py_str = (\<lambda>v. case v of PStr s \<Rightarrow> s | _ \<Rightarrow> ''5''),
        sha1_text_hexdigest = sha1\<rparr>"
  let ?state = "PDict [(''identity'', PDict [(''data'', PDict [(''access_token'', PStr ''tok'')])]),
               (''installation_data'',
                PDict [(''url'', PStr ''https://gitlab.example.com/''),
                       (''verify_ssl'', PBool True),
                       (''client_id'', PStr ''abc''),
                       (''group'', PStr []),
                       (''include_subgroups'', PBool False)])]"
  have "\<exists>integ. build_integration ?env ?state = Inr integ"
    by (simp add: build_integration_def and_then_def Let_def)
  then obtain integ where run: "build_integration ?env ?state = Inr integ" ..
  from C10_webhook_secret [of ?env ?state integ, THEN conjunct1, THEN mp, OF run]
  have "md_webhook_secret (int_metadata integ) = sha1 ''gitlab.example.comabc''"
    by auto
  with run show "\<exists>integ. build_integration ?env ?state = Inr integ \<and>
     md_webhook_secret (int_metadata integ) = sha1 ''gitlab.example.comabc''"
    by (intro exI conjI)
qed


section \<open>Properties of the pull request comment\<close>

lemma py_format_single_issue:
  "py_format SINGLE_ISSUE_TEMPLATE None
          [(ascii ''title'', t), (ascii ''subtitle'', s), (ascii ''url'', u)]
   = Inr (ascii ''- '' @ [8252, 65039] @ ascii '' **'' @ t @ ascii ''** `'' @ s @
       ascii ''` [View Issue]('' @ u @ ascii '')'')"
  by (simp add: SINGLE_ISSUE_TEMPLATE_def ascii_def and_then_def)

lemma py_format_comment_body:
  "py_format COMMENT_BODY_TEMPLATE None [(ascii ''issue_list'', l)]
   = Inr (ascii ''## Suspect Issues'' @ [10] @
     ascii ''This pull request has been deployed and Sentry has observed the following issues:'' @
     [10, 10] @ l @ [10, 10] @
     ascii ''Have questions? Reach out to us in the #proj-github-pr-comments channel.'' @
     [10, 10] @
     ascii ''<sub>Did you find this useful? React with a '' @ [128077] @ ascii '' or '' @
     [128078] @ ascii ''</sub>'')"
  by (simp add: COMMENT_BODY_TEMPLATE_def ascii_def and_then_def)

lemma format_issues_map:
  "format_issues issues =
     Inr (map (\<lambda>issue. ascii ''- '' @ [8252, 65039] @ ascii '' **'' @ title issue @
                 ascii ''** `'' @ format_subtitle (subtitle issue) @
                 ascii ''` [View Issue]('' @ url issue @ ascii '')'') issues)"
  by (induction issues) (simp_all add: py_format_single_issue and_then_def)

lemma join_concat:
  "join sep xs = (if xs = [] then [] else concat (map (\<lambda>x. x @ sep) (butlast xs)) @ last xs)"
  by (induction sep xs rule: join.induct) simp_all

text \<open>
  C6. \<open>format_comment\<close> renders a subtitle longer than 50 characters as its first 47
  characters followed by \<open>...\<close> and a subtitle of at most 50 characters unchanged. It
  never raises, and the comment is the fixed body template with the issue list in the
  place of \<open>{issue_list}\<close>: one bullet line per issue, in the order of the input list,
  each the single-issue template with title, rendered subtitle and url filled in, every
  line but the last followed by a newline.
\<close>

theorem C6_format_comment:
  "format_subtitle s = (if length s > 50 then take 47 s @ ascii ''...'' else s) \<and>
   length (format_subtitle s) = min (length s) 50 \<and>
   (\<exists>lines.
      format_issues issues = Inr lines \<and>
      length lines = length issues \<and>
      (\<forall>k<length issues.
         lines ! k =
           ascii ''- '' @ [8252, 65039] @ ascii '' **'' @ title (issues ! k) @ ascii ''** `'' @
           (if length (subtitle (issues ! k)) > 50
            then take 47 (subtitle (issues ! k)) @ ascii ''...''
            else subtitle (issues ! k)) @
           ascii ''` [View Issue]('' @ url (issues ! k) @ ascii '')'') \<and>
      format_comment issues =
        Inr (ascii ''## Suspect Issues'' @ [10] @
             ascii ''This pull request has been deployed and Sentry has observed the following issues:'' @
             [10, 10] @
             (if lines = [] then []
              else concat (map (\<lambda>line. line @ [10]) (butlast lines)) @ last lines) @
             [10, 10] @
             ascii ''Have questions? Reach out to us in the #proj-github-pr-comments channel.'' @
             [10, 10] @
             ascii ''<sub>Did you find this useful? React with a '' @ [128077] @ ascii '' or '' @
             [128078] @ ascii ''</sub>''))"
proof -
  have a: "format_subtitle s = (if length s > 50 then take 47 s @ ascii ''...'' else s)"
    by (simp add: format_subtitle_def)
  have b: "length (format_subtitle s) = min (length s) 50"
    by (simp add: format_subtitle_def ascii_def)
  let ?lines = "map (\<lambda>issue. ascii ''- '' @ [8252, 65039] @ ascii '' **'' @ title issue @
                 ascii ''** `'' @ format_subtitle (subtitle issue) @
                 ascii ''` [View Issue]('' @ url issue @ ascii '')'') issues"
  have c: "format_issues issues = Inr ?lines"
    by (rule format_issues_map)
  have d: "length ?lines = length issues"
    by simp
  have e: "\<forall>k<length issues.
         ?lines ! k =
           ascii ''- '' @ [8252, 65039] @ ascii '' **'' @ title (issues ! k) @ ascii ''** `'' @
           (if length (subtitle (issues ! k)) > 50
            then take 47 (subtitle (issues ! k)) @ ascii ''...''
            else subtitle (issues ! k)) @
           ascii ''` [View Issue]('' @ url (issues ! k) @ ascii '')''"
    by (simp add: format_subtitle_def)
  have f: "format_comment issues =
        Inr (ascii ''## Suspect Issues'' @ [10] @
             ascii ''This pull request has been deployed and Sentry has observed the following issues:'' @
             [10, 10] @ join [10] ?lines @ [10, 10] @
             ascii ''Have questions? Reach out to us in the #proj-github-pr-comments channel.'' @
             [10, 10] @
             ascii ''<sub>Did you find this useful? React with a '' @ [128077] @ ascii '' or '' @
             [128078] @ ascii ''</sub>'')"
    unfolding format_comment_def c by (simp only: and_then_def sum.case py_format_comment_body)
  have g: "join [10] ?lines =
      (if ?lines = [] then []
       else concat (map (\<lambda>line. line @ [10]) (butlast ?lines)) @ last ?lines)"
    by (rule join_concat)
  from a b c d e f [unfolded g] show ?thesis by blast
qed

theorem C6_format_comment_witness:
  "format_subtitle (replicate 51 120) = replicate 47 120 @ ascii ''...'' \<and>
   length (format_subtitle (replicate 51 120)) = 50 \<and>
   format_comment
     [\<lparr>title = ascii ''T'', subtitle = replicate 51 120, url = ascii ''u''\<rparr>,
      \<lparr>title = ascii ''V'', subtitle = ascii ''s'', url = ascii ''w''\<rparr>]
   = Inr (ascii ''## Suspect Issues'' @ [10] @
          ascii ''This pull request has been deployed and Sentry has observed the following issues:'' @
          [10, 10] @
          ascii ''- '' @ [8252, 65039] @ ascii '' **T** `'' @ replicate 47 120 @
          ascii ''...` [View Issue](u)'' @ [10] @
          ascii ''- '' @ [8252, 65039] @ ascii '' **V** `s` [View Issue](w)'' @
          [10, 10] @
          ascii ''Have questions? Reach out to us in the #proj-github-pr-comments channel.'' @
          [10, 10] @
          ascii ''<sub>Did you find this useful? React with a '' @ [128077] @ ascii '' or '' @
          [128078] @ ascii ''</sub>'')"
proof -
  let ?i1 = "\<lparr>title = ascii ''T'', subtitle = replicate 51 120, url = ascii ''u''\<rparr>"
  let ?i2 = "\<lparr>title = ascii ''V'', subtitle = ascii ''s'', url = ascii ''w''\<rparr>"
  let ?issues = "[?i1, ?i2]"
  let ?l1 = "ascii ''- '' @ [8252, 65039] @ ascii '' **T** `'' @ replicate 47 120 @
          ascii ''...` [View Issue](u)''"
  let ?l2 = "ascii ''- '' @ [8252, 65039] @ ascii '' **V** `s` [View Issue](w)''"
  note t = C6_format_comment [of "replicate 51 120" ?issues]
  have a: "format_subtitle (replicate 51 120) = replicate 47 120 @ ascii ''...''"
    using t [THEN conjunct1] by simp
  have b: "length (format_subtitle (replicate 51 120)) = 50"
    using t [THEN conjunct2, THEN conjunct1] by simp
  from t [THEN conjunct2, THEN conjunct2] obtain lines where
    len: "length lines = length ?issues"
    and k: "\<forall>k<length ?issues. lines ! k =
           ascii ''- '' @ [8252, 65039] @ ascii '' **'' @ title (?issues ! k) @ ascii ''** `'' @
           (if length (subtitle (?issues ! k)) > 50
            then take 47 (subtitle (?issues ! k)) @ ascii ''...''
            else subtitle (?issues ! k)) @
           ascii ''` [View Issue]('' @ url (?issues ! k) @ ascii '')''"
    and body: "format_comment ?issues =
        Inr (ascii ''## Suspect Issues'' @ [10] @
             ascii ''This pull request has been deployed and Sentry has observed the following issues:'' @
             [10, 10] @
             (if lines = [] then []
              else concat (map (\<lambda>line. line @ [10]) (butlast lines)) @ last lines) @
             [10, 10] @
             ascii ''Have questions? Reach out to us in the #proj-github-pr-comments channel.'' @
             [10, 10] @
             ascii ''<sub>Did you find this useful? React with a '' @ [128077] @ ascii '' or '' @
             [128078] @ ascii ''</sub>'')"
    by blast
  have zero: "(0::nat) < length ?issues" and one: "(1::nat) < length ?issues" by simp_all
  have l0: "lines ! 0 = ?l1"
    using k [rule_format, OF zero] by (simp add: ascii_def)
  have l1: "lines ! 1 = ?l2"
    using k [rule_format, OF one] by (simp add: ascii_def)
  from len have "lines = [lines ! 0, lines ! 1]"
    by (cases lines; cases "tl lines") auto
  with l0 l1 have lines: "lines = [?l1, ?l2]" by simp
  have c: "format_comment ?issues
   = Inr (ascii ''## Suspect Issues'' @ [10] @
          ascii ''This pull request has been deployed and Sentry has observed the following issues:'' @
          [10, 10] @ ?l1 @ [10] @ ?l2 @
          [10, 10] @
          ascii ''Have questions? Reach out to us in the #proj-github-pr-comments channel.'' @
          [10, 10] @
          ascii ''<sub>Did you find this useful? React with a '' @ [128077] @ ascii '' or '' @
          [128078] @ ascii ''</sub>'')"
    unfolding body lines by simp
  from a b c show ?thesis by simp
qed


section \<open>Properties of the inbound filter endpoint\<close>

lemma isinstance_bool_iff: "isinstance_bool v \<longleftrightarrow> (\<exists>b. v = PBool b)"
  by (cases v) auto

lemma legacy_browsers_audit_total:
  "isinstance_bool cur \<or> isinstance_bool new \<or> (\<exists>xs ys. cur = PSet xs \<and> new = PSet ys) \<Longrightarrow>
   \<exists>ev st. legacy_browsers_audit cur new = Inr (ev, st)"
  by (auto simp: legacy_browsers_audit_def and_then_def)

lemma audit_state_legacy:
  "legacy_browsers_audit cur new = Inr (ev, st) \<Longrightarrow>
   \<exists>ev st. audit_state ''legacy-browsers'' cur new = Inr (ev, st)"
  by (simp add: audit_state_def and_then_def)

lemma audit_state_other:
  "fid \<noteq> ''legacy-browsers'' \<Longrightarrow>
   fid \<notin> set [''browser-extensions'', ''localhost'', ''web-crawlers''] \<Longrightarrow>
   \<exists>ev st. audit_state fid cur new = Inr (ev, st)"
  by (simp add: audit_state_def and_then_def)

lemma audit_state_boolean:
  "fid \<in> set [''browser-extensions'', ''localhost'', ''web-crawlers''] \<Longrightarrow>
   audit_state fid (PBool a) (PBool b) =
     Inr (if a \<and> \<not> b then PROJECT_DISABLE else PROJECT_ENABLE, PList (map (\<lambda>c. PStr [c]) fid))"
  by (auto simp add: audit_state_def and_then_def)

lemma audit_state_total:
  assumes three: "fid \<in> set [''browser-extensions'', ''localhost'', ''web-crawlers''] \<longrightarrow>
             isinstance_bool cur \<and> isinstance_bool new"
    and legacy: "fid = ''legacy-browsers'' \<longrightarrow>
           isinstance_bool cur \<or> isinstance_bool new \<or> (\<exists>xs ys. cur = PSet xs \<and> new = PSet ys)"
  shows "\<exists>ev st. audit_state fid cur new = Inr (ev, st)"
proof (cases "fid = ''legacy-browsers''")
  case True
  with legacy have "isinstance_bool cur \<or> isinstance_bool new \<or> (\<exists>xs ys. cur = PSet xs \<and> new = PSet ys)"
    by (rule mp)
  then obtain ev st where "legacy_browsers_audit cur new = Inr (ev, st)"
    using legacy_browsers_audit_total [of cur new] by iprover
  then have "\<exists>ev st. audit_state ''legacy-browsers'' cur new = Inr (ev, st)"
    by (rule audit_state_legacy)
  then show ?thesis unfolding True .
next
  case False
  show ?thesis
  proof (cases "fid \<in> set [''browser-extensions'', ''localhost'', ''web-crawlers'']")
    case True
    with three have "isinstance_bool cur \<and> isinstance_bool new" by (rule mp)
    then obtain a b where ab: "cur = PBool a" "new = PBool b"
      unfolding isinstance_bool_iff by iprover
    show ?thesis unfolding ab audit_state_boolean [OF True] by iprover
  next
    case no: False
    from False no show ?thesis by (rule audit_state_other)
  qed
qed

lemma put_boolean_filter:
  assumes fid: "filter_id \<in> set [''browser-extensions'', ''localhost'', ''web-crawlers'']"
    and found: "find (\<lambda>flt. spec_id flt = filter_id) (get_all_filter_specs api) = Some flt"
    and valid: "spec_serializer flt (request_data request) = Inr validated_data"
    and cur: "get_filter_state api filter_id (fw_project w) = PBool a"
    and new: "set_filter_state api filter_id (fw_project w) validated_data = (PBool b, project')"
  shows "put api request filter_id w =
           (Inr \<lparr>response_status = 201, response_data = None\<rparr>,
            \<lparr>fw_project = project',
             fw_audit_log = fw_audit_log w @
               [\<lparr>ae_actor = request_user request,
                 ae_organization = project_organization project',
                 ae_target_object = project_id project',
                 ae_event = (if a \<and> \<not> b then PROJECT_DISABLE else PROJECT_ENABLE),
                 ae_data = PDict [(''state'', PList (map (\<lambda>c. PStr [c]) filter_id))]\<rparr>]\<rparr>)"
  by (simp add: put_def found valid cur new and_then_def audit_state_boolean [OF fid])

text \<open>
  C4. \<open>put\<close> raises \<open>ResourceDoesNotExist\<close> and changes nothing when no registered
  filter spec has the requested id. When the first spec with that id rejects the request
  data, the response is the serializer's errors with status 400, and the project and the
  audit log are as before: \<open>set_filter_state\<close> is not called. Otherwise the project is
  the one \<open>set_filter_state\<close> leaves, one audit entry is appended, and the response has
  status 201. The last case takes the states that \<open>get_filter_state\<close> and
  \<open>set_filter_state\<close> return to be of the types the code operates on: booleans for the
  three boolean filters, and for \<open>legacy-browsers\<close> a boolean on either side or a
  collection on both.
\<close>

theorem C4_put:
  "(filter_id \<notin> spec_id ` set (get_all_filter_specs api) \<longrightarrow>
      put api request filter_id w = (Inl ResourceDoesNotExist, w)) \<and>
   (find (\<lambda>flt. spec_id flt = filter_id) (get_all_filter_specs api) = Some flt \<and>
    spec_serializer flt (request_data request) = Inl errors \<longrightarrow>
      filter_id \<in> spec_id ` set (get_all_filter_specs api) \<and>
      put api request filter_id w =
        (Inr \<lparr>response_status = 400, response_data = Some errors\<rparr>, w)) \<and>
   (find (\<lambda>flt. spec_id flt = filter_id) (get_all_filter_specs api) = Some flt \<and>
    spec_serializer flt (request_data request) = Inr validated_data \<and>
    set_if_list (get_filter_state api filter_id (fw_project w)) = Inr current_state \<and>
    set_filter_state api filter_id (fw_project w) validated_data = (new_state0, project') \<and>
    set_if_list new_state0 = Inr new_state \<and>
    (filter_id \<in> set [''browser-extensions'', ''localhost'', ''web-crawlers''] \<longrightarrow>
       isinstance_bool current_state \<and> isinstance_bool new_state) \<and>
    (filter_id = ''legacy-browsers'' \<longrightarrow>
       isinstance_bool current_state \<or> isinstance_bool new_state \<or>
       (\<exists>xs ys. current_state = PSet xs \<and> new_state = PSet ys)) \<longrightarrow>
      (\<exists>event state.
         put api request filter_id w =
           (Inr \<lparr>response_status = 201, response_data = None\<rparr>,
            \<lparr>fw_project = project',
             fw_audit_log = fw_audit_log w @
               [\<lparr>ae_actor = request_user request,
                 ae_organization = project_organization project',
                 ae_target_object = project_id project',
                 ae_event = event,
                 ae_data = PDict [(''state'', state)]\<rparr>]\<rparr>)))"
proof (intro conjI impI)
  assume "filter_id \<notin> spec_id ` set (get_all_filter_specs api)"
  then have "find (\<lambda>flt. spec_id flt = filter_id) (get_all_filter_specs api) = None"
    by (auto simp: find_None_iff)
  then show "put api request filter_id w = (Inl ResourceDoesNotExist, w)"
    by (simp add: put_def)
next
  assume a: "find (\<lambda>flt. spec_id flt = filter_id) (get_all_filter_specs api) = Some flt \<and>
    spec_serializer flt (request_data request) = Inl errors"
  then show "filter_id \<in> spec_id ` set (get_all_filter_specs api)"
    by (auto simp: find_Some_iff)
  from a show "put api request filter_id w =
        (Inr \<lparr>response_status = 400, response_data = Some errors\<rparr>, w)"
    by (simp add: put_def)
next
  assume a: "find (\<lambda>flt. spec_id flt = filter_id) (get_all_filter_specs api) = Some flt \<and>
    spec_serializer flt (request_data request) = Inr validated_data \<and>
    set_if_list (get_filter_state api filter_id (fw_project w)) = Inr current_state \<and>
    set_filter_state api filter_id (fw_project w) validated_data = (new_state0, project') \<and>
    set_if_list new_state0 = Inr new_state \<and>
    (filter_id \<in> set [''browser-extensions'', ''localhost'', ''web-crawlers''] \<longrightarrow>
       isinstance_bool current_state \<and> isinstance_bool new_state) \<and>
    (filter_id = ''legacy-browsers'' \<longrightarrow>
       isinstance_bool current_state \<or> isinstance_bool new_state \<or>
       (\<exists>xs ys. current_state = PSet xs \<and> new_state = PSet ys))"
  then obtain ev st where st: "audit_state filter_id current_state new_state = Inr (ev, st)"
    using audit_state_total [of filter_id current_state new_state] by blast
  have "put api request filter_id w =
           (Inr \<lparr>response_status = 201, response_data = None\<rparr>,
            \<lparr>fw_project = project',
             fw_audit_log = fw_audit_log w @
               [\<lparr>ae_actor = request_user request,
                 ae_organization = project_organization project',
                 ae_target_object = project_id project',
                 ae_event = ev,
                 ae_data = PDict [(''state'', st)]\<rparr>]\<rparr>)"
    using a st by (simp add: put_def and_then_def)
  then show "\<exists>event state.
         put api request filter_id w =
           (Inr \<lparr>response_status = 201, response_data = None\<rparr>,
            \<lparr>fw_project = project',
             fw_audit_log = fw_audit_log w @
               [\<lparr>ae_actor = request_user request,
                 ae_organization = project_organization project',
                 ae_target_object = project_id project',
                 ae_event = event,
                 ae_data = PDict [(''state'', state)]\<rparr>]\<rparr>)"
    by blast
qed


theorem C4_put_witness:
  "put \<lparr>get_all_filter_specs =
           [\<lparr>spec_id = ''localhost'',
             spec_serializer = (\<lambda>d. if d = PNone then Inl (PStr ''invalid'') else Inr d)\<rparr>],
         get_filter_state = (\<lambda>fid p. PBool True),
         set_filter_state = (\<lambda>fid p d. (PBool False, p\<lparr>project_options := [(fid, PStr ''0'')]\<rparr>))\<rparr>
       \<lparr>request_user = 7, request_data = PDict [(''active'', PBool False)]\<rparr> ''web-crawlers''
       \<lparr>fw_project = \<lparr>project_id = 1, project_organization = 2, project_options = []\<rparr>,
        fw_audit_log = []\<rparr>
     = (Inl ResourceDoesNotExist,
        \<lparr>fw_project = \<lparr>project_id = 1, project_organization = 2, project_options = []\<rparr>,
         fw_audit_log = []\<rparr>) \<and>
   put \<lparr>get_all_filter_specs =
           [\<lparr>spec_id = ''localhost'',
             spec_serializer = (\<lambda>d. if d = PNone then Inl (PStr ''invalid'') else Inr d)\<rparr>],
         get_filter_state = (\<lambda>fid p. PBool True),
         set_filter_state = (\<lambda>fid p d. (PBool False, p\<lparr>project_options := [(fid, PStr ''0'')]\<rparr>))\<rparr>
       \<lparr>request_user = 7, request_data = PNone\<rparr> ''localhost''
       \<lparr>fw_project = \<lparr>project_id = 1, project_organization = 2, project_options = []\<rparr>,
        fw_audit_log = []\<rparr>
     = (Inr \<lparr>response_status = 400, response_data = Some (PStr ''invalid'')\<rparr>,
        \<lparr>fw_project = \<lparr>project_id = 1, project_organization = 2, project_options = []\<rparr>,
         fw_audit_log = []\<rparr>) \<and>
   (\<exists>event state.
      put \<lparr>get_all_filter_specs =
             [\<lparr>spec_id = ''localhost'',
               spec_serializer = (\<lambda>d. if d = PNone then Inl (PStr ''invalid'') else Inr d)\<rparr>],
           get_filter_state = (\<lambda>fid p. PBool True),
           set_filter_state = (\<lambda>fid p d. (PBool False, p\<lparr>project_options := [(fid, PStr ''0'')]\<rparr>))\<rparr>
         \<lparr>request_user = 7, request_data = PDict [(''active'', PBool False)]\<rparr> ''localhost''
         \<lparr>fw_project = \<lparr>project_id = 1, project_organization = 2, project_options = []\<rparr>,
          fw_audit_log = []\<rparr>
       = (Inr \<lparr>response_status = 201, response_data = None\<rparr>,
          \<lparr>fw_project = \<lparr>project_id = 1, project_organization = 2,
                          project_options = [(''localhost'', PStr ''0'')]\<rparr>,
           fw_audit_log =
             [\<lparr>ae_actor = 7, ae_organization = 2, ae_target_object = 1, ae_event = event,
               ae_data = PDict [(''state'', state)]\<rparr>]\<rparr>))"
proof -
  let ?spec = "\<lparr>spec_id = ''localhost'',
             spec_serializer = (\<lambda>d. if d = PNone then Inl (PStr ''invalid'') else Inr d)\<rparr>"
  let ?api = "\<lparr>get_all_filter_specs = [?spec],
         get_filter_state = (\<lambda>fid p. PBool True),
         set_filter_state = (\<lambda>fid p d. (PBool False, p\<lparr>project_options := [(fid, PStr ''0'')]\<rparr>))\<rparr>"
  let ?w = "\<lparr>fw_project = \<lparr>project_id = 1, project_organization = 2, project_options = []\<rparr>,
        fw_audit_log = []\<rparr>"
  let ?ok = "\<lparr>request_user = 7, request_data = PDict [(''active'', PBool False)]\<rparr>"
  let ?bad = "\<lparr>request_user = 7, request_data = PNone\<rparr>"
  have a: "put ?api ?ok ''web-crawlers'' ?w = (Inl ResourceDoesNotExist, ?w)"
    using C4_put [where api = ?api and request = ?ok and filter_id = "''web-crawlers''" and w = ?w,
        THEN conjunct1]
    by simp
  have b: "put ?api ?bad ''localhost'' ?w =
      (Inr \<lparr>response_status = 400, response_data = Some (PStr ''invalid'')\<rparr>, ?w)"
    using C4_put [where api = ?api and request = ?bad and filter_id = "''localhost''" and w = ?w
          and flt = ?spec and errors = "PStr ''invalid''",
        THEN conjunct2, THEN conjunct1]
    by simp
  have c: "\<exists>event state.
      put ?api ?ok ''localhost'' ?w
       = (Inr \<lparr>response_status = 201, response_data = None\<rparr>,
          \<lparr>fw_project = \<lparr>project_id = 1, project_organization = 2,
                          project_options = [(''localhost'', PStr ''0'')]\<rparr>,
           fw_audit_log =
             [\<lparr>ae_actor = 7, ae_organization = 2, ae_target_object = 1, ae_event = event,
               ae_data = PDict [(''state'', state)]\<rparr>]\<rparr>)"
    using C4_put [where api = ?api and request = ?ok and filter_id = "''localhost''" and w = ?w
          and flt = ?spec and validated_data = "PDict [(''active'', PBool False)]"
          and current_state = "PBool True" and new_state0 = "PBool False"
          and new_state = "PBool False"
          and project' = "\<lparr>project_id = 1, project_organization = 2,
                          project_options = [(''localhost'', PStr ''0'')]\<rparr>",
        THEN conjunct2, THEN conjunct2]
    by simp
  from a b c show ?thesis by (intro conjI)
qed

text \<open>
  C5. For the three boolean filters the audit entry records \<open>PROJECT_DISABLE\<close> exactly
  when the filter was on and is now off, as \<open>put_boolean_filter\<close> shows. The state it
  records is not the filter id: \<open>returned_state\<close> is a \<open>str\<close>, a \<open>str\<close> is an
  \<open>Iterable\<close>, and \<open>list(returned_state)\<close> is the list of its characters. Switching
  \<open>localhost\<close> off records the nine one-character strings of the name.
\<close>

theorem C5_state_is_character_list:
  "put \<lparr>get_all_filter_specs = [\<lparr>spec_id = ''localhost'', spec_serializer = Inr\<rparr>],
         get_filter_state = (\<lambda>fid p. PBool True),
         set_filter_state = (\<lambda>fid p d. (PBool False, p))\<rparr>
       \<lparr>request_user = 7, request_data = PDict [(''active'', PBool False)]\<rparr> ''localhost''
       \<lparr>fw_project = \<lparr>project_id = 1, project_organization = 2, project_options = []\<rparr>,
        fw_audit_log = []\<rparr>
     = (Inr \<lparr>response_status = 201, response_data = None\<rparr>,
        \<lparr>fw_project = \<lparr>project_id = 1, project_organization = 2, project_options = []\<rparr>,
         fw_audit_log =
           [\<lparr>ae_actor = 7, ae_organization = 2, ae_target_object = 1,
             ae_event = PROJECT_DISABLE,
             ae_data = PDict [(''state'',
               PList [PStr ''l'', PStr ''o'', PStr ''c'', PStr ''a'', PStr ''l'', PStr ''h'',
                      PStr ''o'', PStr ''s'', PStr ''t''])]\<rparr>]\<rparr>) \<and>
   PList [PStr ''l'', PStr ''o'', PStr ''c'', PStr ''a'', PStr ''l'', PStr ''h'',
          PStr ''o'', PStr ''s'', PStr ''t''] \<noteq> PStr ''localhost''"
  by (simp add: put_def and_then_def audit_state_def)


end
